theory Spec2Isabelle
  imports Complex_Main "HOL-Library.Word"
begin

unbundle bit_operations_syntax

chapter \<open>The field engine of RNTuple (ROOT/RField.hxx): embedding\<close>

text \<open>
  The source is the header \<^verbatim>\<open>ROOT/RField.hxx\<close> (class \<^verbatim>\<open>RFieldBase\<close>, its nested
  classes \<^verbatim>\<open>RValue\<close>, \<^verbatim>\<open>RBulk\<close>, \<^verbatim>\<open>RBulkSpec\<close>, \<^verbatim>\<open>RSchemaIteratorTemplate\<close>, and the
  concrete fields \<^verbatim>\<open>RRecordField\<close>, \<^verbatim>\<open>RBitsetField\<close>, \<^verbatim>\<open>RCardinalityField\<close>).
  Functions whose bodies live in \<^verbatim>\<open>RField.cxx\<close> or \<^verbatim>\<open>RColumn.hxx\<close> are not part of the
  sources; where one is needed it is a parameter of the model or a definition marked
  "Modelled from the spec".

  Conventions.
  \<^item> A \<^verbatim>\<open>void *\<close> is an address (\<open>addr\<close>); the memory that columns, virtual
    implementations and callbacks read and write is an abstract world \<open>'w\<close>.
  \<^item> A model function that stands for a member function with side effects takes
    the state and returns the new one. The state carries, next to the world, the list
    of calls the function made (\<open>calls\<close>), in order; a call site of the source is one
    \<open>note_call\<close> of the model.
  \<^item> A virtual member function is a function-valued field of the record of its class.
  \<^item> \<^verbatim>\<open>std::size_t\<close> counts and indices are \<open>nat\<close> where no wrap-around can
    change the outcome, and \<open>64 word\<close> where it can (\<open>RBitsetField_GetValueSize\<close>, the
    offsets of the cardinality field). \<^verbatim>\<open>int fTraits\<close> is a \<open>32 word\<close>: only bitwise
    operations are applied to it.
\<close>

section \<open>Basic types\<close>

type_synonym addr = nat
type_synonym NTupleSize_t = nat

text \<open>\<^verbatim>\<open>RClusterIndex\<close>: a cluster id and an index local to that cluster.\<close>

record RClusterIndex =
  fClusterId :: nat
  fIndex :: nat

text \<open>\<^verbatim>\<open>RClusterIndex::operator+(off)\<close>: same cluster, index advanced.\<close>

definition RClusterIndex_plus :: "RClusterIndex \<Rightarrow> nat \<Rightarrow> RClusterIndex" where
  "RClusterIndex_plus ci off = ci\<lparr> fIndex := fIndex ci + off \<rparr>"

section \<open>Traits (lines 160-170)\<close>

definition kTraitTriviallyConstructible :: "32 word" where
  "kTraitTriviallyConstructible = 0x01"

definition kTraitTriviallyDestructible :: "32 word" where
  "kTraitTriviallyDestructible = 0x02"

definition kTraitMappable :: "32 word" where
  "kTraitMappable = 0x04"

definition kTraitTrivialType :: "32 word" where
  "kTraitTrivialType = kTraitTriviallyConstructible OR kTraitTriviallyDestructible"

text \<open>The C++ condition \<^verbatim>\<open>if (traits & k)\<close>: the conjunction is not zero.\<close>

definition has_trait :: "32 word \<Rightarrow> 32 word \<Rightarrow> bool" where
  "has_trait traits k = (traits AND k \<noteq> 0)"

section \<open>Calls, state, columns\<close>

text \<open>
  The calls a model function can make: to the principal column, to a virtual
  implementation, to a read callback (with its position in \<^verbatim>\<open>fReadCallbacks\<close>), to the
  value destructor of a field, and to the allocation of a bulk's value array.
\<close>

datatype call =
    Column_Append addr
  | Column_Read NTupleSize_t addr
  | Column_Read_cluster RClusterIndex addr
  | Column_ReadV RClusterIndex nat addr
  | Call_AppendImpl addr
  | Call_ReadGlobalImpl NTupleSize_t addr
  | Call_ReadInClusterImpl RClusterIndex addr
  | Call_ReadBulkImpl RClusterIndex nat
  | Call_ReadCallback nat addr
  | Call_DestroyValue nat addr bool
  | Call_ReleaseValues addr nat
  | Call_AllocValues nat nat

record 'w state =
  mem :: 'w
  calls :: "call list"

definition note_call :: "call \<Rightarrow> ('w \<Rightarrow> 'w) \<Rightarrow> 'w state \<Rightarrow> 'w state" where
  "note_call c effect s = s\<lparr> mem := effect (mem s), calls := calls s @ [c] \<rparr>"

text \<open>
  \<^verbatim>\<open>RColumn\<close> is declared in \<^verbatim>\<open>ROOT/RColumn.hxx\<close>, which is not among the sources: the
  member functions the field calls are parameters, each an effect on the world.
  \<open>col_PackedSize\<close> is \<^verbatim>\<open>GetElement()->GetPackedSize()\<close>.
\<close>

record 'w RColumn =
  col_Append :: "addr \<Rightarrow> 'w \<Rightarrow> 'w"
  col_Read :: "NTupleSize_t \<Rightarrow> addr \<Rightarrow> 'w \<Rightarrow> 'w"
  col_Read_cluster :: "RClusterIndex \<Rightarrow> addr \<Rightarrow> 'w \<Rightarrow> 'w"
  col_ReadV :: "RClusterIndex \<Rightarrow> nat \<Rightarrow> addr \<Rightarrow> 'w \<Rightarrow> 'w"
  col_PackedSize :: nat

section \<open>\<^verbatim>\<open>RBulkSpec\<close> (lines 391-406)\<close>

text \<open>
  \<^verbatim>\<open>fMaskAvail\<close> is a pointer into the mask array of the bulk and \<^verbatim>\<open>fAuxData\<close> a
  pointer to the bulk's scratch vector: the model passes the array of \<^verbatim>\<open>fCount\<close> flags
  (and the vector) in and returns them updated. \<^verbatim>\<open>fValues\<close> stays an address: the
  values live in the world.
\<close>

record RBulkSpec =
  bs_fFirstIndex :: RClusterIndex
  bs_fCount :: nat
  bs_fMaskReq :: "bool list"
  bs_fMaskAvail :: "bool list"
  bs_fValues :: addr
  bs_fAuxData :: "8 word list"

text \<open>\<^verbatim>\<open>static const std::size_t kAllSet = std::size_t(-1);\<close>\<close>

definition kAllSet :: nat where
  "kAllSet = 2 ^ 64 - 1"

text \<open>
  \<^verbatim>\<open>std::fill(p, p + n, v)\<close> on an array that starts at \<^verbatim>\<open>p\<close>: the first \<open>n\<close> elements
  become \<open>v\<close>. (The array has at least \<open>n\<close> elements, or the behaviour of the C++ is
  undefined.)
\<close>

definition std_fill :: "'a list \<Rightarrow> nat \<Rightarrow> 'a \<Rightarrow> 'a list" where
  "std_fill xs n v = replicate n v @ drop n xs"

section \<open>\<^verbatim>\<open>RFieldBase\<close>: the members and virtual functions of the I/O paths\<close>

text \<open>
  \<^verbatim>\<open>fIsSimple\<close> (line 363), \<^verbatim>\<open>fTraits\<close> (419), \<^verbatim>\<open>fReadCallbacks\<close> (423),
  \<^verbatim>\<open>fPrincipalColumn\<close> (415, here the column it points to), and the virtual
  \<^verbatim>\<open>AppendImpl\<close>, \<^verbatim>\<open>ReadGlobalImpl\<close>, \<^verbatim>\<open>ReadInClusterImpl\<close>, \<^verbatim>\<open>ReadBulkImpl\<close> (464-469,
  514). A read callback is a \<^verbatim>\<open>std::function<void(void *)>\<close>: an effect on the world,
  given the target address.
\<close>

record 'w RFieldBase =
  fIsSimple :: bool
  fTraits :: "32 word"
  fReadCallbacks :: "(addr \<Rightarrow> 'w \<Rightarrow> 'w) list"
  fPrincipalColumn :: "'w RColumn"
  AppendImpl :: "addr \<Rightarrow> 'w \<Rightarrow> nat \<times> 'w"
  ReadGlobalImpl :: "NTupleSize_t \<Rightarrow> addr \<Rightarrow> 'w \<Rightarrow> 'w"
  ReadInClusterImpl :: "RClusterIndex \<Rightarrow> addr \<Rightarrow> 'w \<Rightarrow> 'w"
  ReadBulkImpl :: "RBulkSpec \<Rightarrow> 'w \<Rightarrow> nat \<times> RBulkSpec \<times> 'w"

text \<open>
  \<^verbatim>\<open>InvokeReadCallbacks\<close> (lines 373-377):
  \<^verbatim>\<open>for (const auto &func : fReadCallbacks) func(target);\<close>
  The loop runs over the vector from its first element; \<open>k\<close> is the position of the
  callback that is called next.
\<close>

fun InvokeReadCallbacks_from ::
  "nat \<Rightarrow> (addr \<Rightarrow> 'w \<Rightarrow> 'w) list \<Rightarrow> addr \<Rightarrow> 'w state \<Rightarrow> 'w state" where
  "InvokeReadCallbacks_from k [] target s = s"
| "InvokeReadCallbacks_from k (func # funcs) target s =
     InvokeReadCallbacks_from (Suc k) funcs target
       (note_call (Call_ReadCallback k target) (func target) s)"

definition InvokeReadCallbacks :: "'w RFieldBase \<Rightarrow> addr \<Rightarrow> 'w state \<Rightarrow> 'w state" where
  "InvokeReadCallbacks f target s = InvokeReadCallbacks_from 0 (fReadCallbacks f) target s"

text \<open>
  \<^verbatim>\<open>Append\<close> (lines 473-480):
  \<^verbatim>\<open>if (~fTraits & kTraitMappable) return AppendImpl(from);\<close>
  \<^verbatim>\<open>fPrincipalColumn->Append(from);\<close>
  \<^verbatim>\<open>return fPrincipalColumn->GetElement()->GetPackedSize();\<close>
\<close>

definition Append :: "'w RFieldBase \<Rightarrow> addr \<Rightarrow> 'w state \<Rightarrow> nat \<times> 'w state" where
  "Append f from s =
     (if has_trait (NOT (fTraits f)) kTraitMappable
      then (fst (AppendImpl f from (mem s)),
            note_call (Call_AppendImpl from) (\<lambda>w. snd (AppendImpl f from w)) s)
      else (col_PackedSize (fPrincipalColumn f),
            note_call (Column_Append from) (col_Append (fPrincipalColumn f) from) s))"

text \<open>
  \<^verbatim>\<open>Read(NTupleSize_t globalIndex, void *to)\<close> (lines 485-496):
  \<^verbatim>\<open>if (fIsSimple) return (void)fPrincipalColumn->Read(globalIndex, to);\<close>
  \<^verbatim>\<open>if (fTraits & kTraitMappable) fPrincipalColumn->Read(globalIndex, to);\<close>
  \<^verbatim>\<open>else ReadGlobalImpl(globalIndex, to);\<close>
  \<^verbatim>\<open>if (R__unlikely(!fReadCallbacks.empty())) InvokeReadCallbacks(to);\<close>
\<close>

definition Read :: "'w RFieldBase \<Rightarrow> NTupleSize_t \<Rightarrow> addr \<Rightarrow> 'w state \<Rightarrow> 'w state" where
  "Read f globalIndex to s =
     (if fIsSimple f
      then note_call (Column_Read globalIndex to)
             (col_Read (fPrincipalColumn f) globalIndex to) s
      else
        let s1 = (if has_trait (fTraits f) kTraitMappable
                  then note_call (Column_Read globalIndex to)
                         (col_Read (fPrincipalColumn f) globalIndex to) s
                  else note_call (Call_ReadGlobalImpl globalIndex to)
                         (ReadGlobalImpl f globalIndex to) s)
        in if fReadCallbacks f \<noteq> [] then InvokeReadCallbacks f to s1 else s1)"

text \<open>\<^verbatim>\<open>Read(const RClusterIndex &clusterIndex, void *to)\<close> (lines 498-509), the same shape.\<close>

definition Read_cluster ::
  "'w RFieldBase \<Rightarrow> RClusterIndex \<Rightarrow> addr \<Rightarrow> 'w state \<Rightarrow> 'w state" where
  "Read_cluster f clusterIndex to s =
     (if fIsSimple f
      then note_call (Column_Read_cluster clusterIndex to)
             (col_Read_cluster (fPrincipalColumn f) clusterIndex to) s
      else
        let s1 = (if has_trait (fTraits f) kTraitMappable
                  then note_call (Column_Read_cluster clusterIndex to)
                         (col_Read_cluster (fPrincipalColumn f) clusterIndex to) s
                  else note_call (Call_ReadInClusterImpl clusterIndex to)
                         (ReadInClusterImpl f clusterIndex to) s)
        in if fReadCallbacks f \<noteq> [] then InvokeReadCallbacks f to s1 else s1)"

text \<open>
  Modelled from the spec: the bodies of \<^verbatim>\<open>AddReadCallback\<close> and \<^verbatim>\<open>RemoveReadCallback\<close>
  (declared at lines 545-546, defined in \<^verbatim>\<open>RField.cxx\<close>) are missing. The spec (4.1,
  4.4): the callbacks are an ordered list, invoked in the order of registration;
  "registering a callback demotes \<open>simple\<close> to false"; "removal restores \<open>simple\<close> if no
  callbacks remain and the field is mappable". The declaration's comment: "returns an
  index that can be used to remove the callback".
\<close>

definition AddReadCallback ::
  "'w RFieldBase \<Rightarrow> (addr \<Rightarrow> 'w \<Rightarrow> 'w) \<Rightarrow> nat \<times> 'w RFieldBase" where
  "AddReadCallback f func =
     (length (fReadCallbacks f),
      f\<lparr> fReadCallbacks := fReadCallbacks f @ [func], fIsSimple := False \<rparr>)"

definition RemoveReadCallback :: "'w RFieldBase \<Rightarrow> nat \<Rightarrow> 'w RFieldBase" where
  "RemoveReadCallback f idx =
     (let cbs = take idx (fReadCallbacks f) @ drop (Suc idx) (fReadCallbacks f)
      in f\<lparr> fReadCallbacks := cbs,
            fIsSimple := (has_trait (fTraits f) kTraitMappable \<and> cbs = []) \<rparr>)"

text \<open>
  The state of a non-simple read after the value is populated and before the callbacks
  run (the \<open>if\<close>/\<open>else\<close> of \<^verbatim>\<open>Read\<close>), named for the statement of properties.
\<close>

definition Read_populated ::
  "'w RFieldBase \<Rightarrow> NTupleSize_t \<Rightarrow> addr \<Rightarrow> 'w state \<Rightarrow> 'w state" where
  "Read_populated f globalIndex to s =
     (if has_trait (fTraits f) kTraitMappable
      then note_call (Column_Read globalIndex to)
             (col_Read (fPrincipalColumn f) globalIndex to) s
      else note_call (Call_ReadGlobalImpl globalIndex to) (ReadGlobalImpl f globalIndex to) s)"

definition Read_cluster_populated ::
  "'w RFieldBase \<Rightarrow> RClusterIndex \<Rightarrow> addr \<Rightarrow> 'w state \<Rightarrow> 'w state" where
  "Read_cluster_populated f clusterIndex to s =
     (if has_trait (fTraits f) kTraitMappable
      then note_call (Column_Read_cluster clusterIndex to)
             (col_Read_cluster (fPrincipalColumn f) clusterIndex to) s
      else note_call (Call_ReadInClusterImpl clusterIndex to)
             (ReadInClusterImpl f clusterIndex to) s)"

text \<open>The calls to the callbacks at positions \<open>0, 1, ..., n - 1\<close>, on \<open>target\<close>.\<close>

definition callback_calls :: "nat \<Rightarrow> addr \<Rightarrow> call list" where
  "callback_calls n target = map (\<lambda>k. Call_ReadCallback k target) [0..<n]"

text \<open>
  \<^verbatim>\<open>ReadBulk(const RBulkSpec &bulkSpec)\<close> (lines 519-529):
  \<^verbatim>\<open>if (fIsSimple) {\<close>
  \<^verbatim>\<open>   fPrincipalColumn->ReadV(bulkSpec.fFirstIndex, bulkSpec.fCount, bulkSpec.fValues);\<close>
  \<^verbatim>\<open>   std::fill(bulkSpec.fMaskAvail, bulkSpec.fMaskAvail + bulkSpec.fCount, true);\<close>
  \<^verbatim>\<open>   return RBulkSpec::kAllSet; }\<close>
  \<^verbatim>\<open>return ReadBulkImpl(bulkSpec);\<close>
  The result is the return value, the bulk spec with the arrays it points to as the
  call left them, and the state.
\<close>

definition ReadBulk ::
  "'w RFieldBase \<Rightarrow> RBulkSpec \<Rightarrow> 'w state \<Rightarrow> nat \<times> RBulkSpec \<times> 'w state" where
  "ReadBulk f bulkSpec s =
     (if fIsSimple f
      then (kAllSet,
            bulkSpec\<lparr> bs_fMaskAvail :=
              std_fill (bs_fMaskAvail bulkSpec) (bs_fCount bulkSpec) True \<rparr>,
            note_call
              (Column_ReadV (bs_fFirstIndex bulkSpec) (bs_fCount bulkSpec) (bs_fValues bulkSpec))
              (col_ReadV (fPrincipalColumn f) (bs_fFirstIndex bulkSpec) (bs_fCount bulkSpec)
                 (bs_fValues bulkSpec)) s)
      else (case ReadBulkImpl f bulkSpec (mem s) of (nRead, bulkSpec', w) \<Rightarrow>
              (nRead, bulkSpec',
               s\<lparr> mem := w,
                  calls := calls s @
                    [Call_ReadBulkImpl (bs_fFirstIndex bulkSpec) (bs_fCount bulkSpec)] \<rparr>)))"

section \<open>\<^verbatim>\<open>RRecordField\<close>: the constructor from an array of items (lines 983-996)\<close>

text \<open>
  A field as the constructor of a parent sees it: its name and type, the results of
  the getters \<^verbatim>\<open>GetTraits\<close>, \<^verbatim>\<open>GetValueSize\<close>, \<^verbatim>\<open>GetAlignment\<close>, and its sub-fields.
\<close>

datatype RField = RField (fName: string) (fType: string) (GetTraits: "32 word")
  (GetValueSize: nat) (GetAlignment: nat) (fSubFields: "RField list")

record RRecordField =
  rf_fName :: string
  rf_fType :: string
  rf_fTraits :: "32 word"
  fOffsets :: "nat list"
  fMaxAlignment :: nat
  rf_fSize :: nat
  rf_fSubFields :: "RField list"

text \<open>
  The base constructor \<^verbatim>\<open>RFieldBase(name, type, structure, isSimple)\<close> is defined in
  \<^verbatim>\<open>RField.cxx\<close>; its effect on \<^verbatim>\<open>fTraits\<close> is documented at lines 625-626 ("if
  \<^verbatim>\<open>isSimple\<close> is true, the trait \<^verbatim>\<open>kTraitMappable\<close> is automatically set on
  construction") over the member initialiser \<^verbatim>\<open>int fTraits = 0\<close> (line 419).
\<close>

definition RFieldBase_init_traits :: "bool \<Rightarrow> 32 word" where
  "RFieldBase_init_traits isSimple = (if isSimple then kTraitMappable else 0)"

text \<open>
  One round of the constructor's loop, for the item and its offset:
  \<^verbatim>\<open>fOffsets.push_back(offsets[i]);\<close>
  \<^verbatim>\<open>fMaxAlignment = std::max(fMaxAlignment, itemFields[i]->GetAlignment());\<close>
  \<^verbatim>\<open>fSize += GetItemPadding(fSize, itemFields[i]->GetAlignment()) + itemFields[i]->GetValueSize();\<close>
  \<^verbatim>\<open>fTraits &= itemFields[i]->GetTraits();\<close>
  \<^verbatim>\<open>Attach(std::move(itemFields[i]));\<close>
  \<^verbatim>\<open>GetItemPadding\<close> is defined in \<^verbatim>\<open>RField.cxx\<close>: it is a parameter. \<^verbatim>\<open>Attach\<close> appends
  the child to the sub-fields.
\<close>

definition RRecordField_add_item ::
  "(nat \<Rightarrow> nat \<Rightarrow> nat) \<Rightarrow> RRecordField \<Rightarrow> RField \<times> nat \<Rightarrow> RRecordField" where
  "RRecordField_add_item GetItemPadding r io =
     (case io of (item, off) \<Rightarrow>
       r\<lparr> fOffsets := fOffsets r @ [off],
          fMaxAlignment := max (fMaxAlignment r) (GetAlignment item),
          rf_fSize := rf_fSize r + GetItemPadding (rf_fSize r) (GetAlignment item)
                        + GetValueSize item,
          rf_fTraits := rf_fTraits r AND GetTraits item,
          rf_fSubFields := rf_fSubFields r @ [item] \<rparr>)"

text \<open>
  The constructor: the base is built with \<^verbatim>\<open>isSimple = false\<close>, then
  \<^verbatim>\<open>fTraits |= kTraitTrivialType;\<close> and the loop over \<^verbatim>\<open>i = 0 .. N-1\<close>. Both arrays
  have \<open>N\<close> elements.
\<close>

definition RRecordField_ctor ::
  "(nat \<Rightarrow> nat \<Rightarrow> nat) \<Rightarrow> string \<Rightarrow> RField list \<Rightarrow> nat list \<Rightarrow> string \<Rightarrow> RRecordField" where
  "RRecordField_ctor GetItemPadding fieldName itemFields offsets typeName =
     foldl (RRecordField_add_item GetItemPadding)
       \<lparr> rf_fName = fieldName, rf_fType = typeName,
          rf_fTraits = RFieldBase_init_traits False OR kTraitTrivialType,
          fOffsets = [], fMaxAlignment = 1, rf_fSize = 0, rf_fSubFields = [] \<rparr>
       (zip itemFields offsets)"

section \<open>\<^verbatim>\<open>RBitsetField\<close> (lines 1138-1171)\<close>

text \<open>
  \<^verbatim>\<open>using Word_t = unsigned long;\<close>
  \<^verbatim>\<open>static constexpr std::size_t kWordSize = sizeof(Word_t);\<close>
  \<^verbatim>\<open>static constexpr std::size_t kBitsPerWord = kWordSize * 8;\<close>
  \<^verbatim>\<open>size_t GetValueSize() const final { return kWordSize * ((fN + kBitsPerWord - 1) / kBitsPerWord); }\<close>
  \<^verbatim>\<open>sizeof(unsigned long)\<close> depends on the platform (8 on LP64, 4 on LLP64): \<open>kWordSize\<close>
  is a parameter. \<^verbatim>\<open>std::size_t\<close> is a 64-bit word, whose arithmetic wraps around.
\<close>

definition kBitsPerWord :: "64 word \<Rightarrow> 64 word" where
  "kBitsPerWord kWordSize = kWordSize * 8"

definition RBitsetField_GetValueSize :: "64 word \<Rightarrow> 64 word \<Rightarrow> 64 word" where
  "RBitsetField_GetValueSize kWordSize fN =
     kWordSize * ((fN + kBitsPerWord kWordSize - 1) div kBitsPerWord kWordSize)"

text \<open>The size the spec gives, over the natural numbers: the ceiling of \<open>N / bits-per-word\<close>, times the word size.\<close>

definition bitset_size_spec :: "nat \<Rightarrow> nat \<Rightarrow> nat" where
  "bitset_size_spec wordSize N = nat \<lceil>real N / real (wordSize * 8)\<rceil> * wordSize"

section \<open>\<^verbatim>\<open>RBulk\<close> (lines 272-351)\<close>

text \<open>
  The members of the bulk. \<^verbatim>\<open>fField\<close> is a pointer to the field: the functions below
  take the field it points to as an argument. \<^verbatim>\<open>fMaskAvail\<close> is the array behind the
  \<^verbatim>\<open>unique_ptr\<close>; \<^verbatim>\<open>fValues\<close> is the address of the value array.
\<close>

record RBulk =
  fValues :: addr
  fValueSize :: nat
  fCapacity :: nat
  fSize :: nat
  fMaskAvail :: "bool list"
  fNValidValues :: nat
  fFirstIndex :: RClusterIndex
  fAuxData :: "8 word list"

text \<open>
  \<^verbatim>\<open>ContainsRange\<close> (lines 295-301):
  \<^verbatim>\<open>if (firstIndex.GetClusterId() != fFirstIndex.GetClusterId()) return false;\<close>
  \<^verbatim>\<open>return (firstIndex.GetIndex() >= fFirstIndex.GetIndex()) &&\<close>
  \<^verbatim>\<open>       ((firstIndex.GetIndex() + size) <= (fFirstIndex.GetIndex() + fSize));\<close>
  The two sums are sums of 64-bit unsigned integers: they wrap around.
\<close>

definition ContainsRange :: "RBulk \<Rightarrow> RClusterIndex \<Rightarrow> nat \<Rightarrow> bool" where
  "ContainsRange b firstIndex sz =
     (if fClusterId firstIndex \<noteq> fClusterId (fFirstIndex b) then False
      else fIndex firstIndex \<ge> fIndex (fFirstIndex b) \<and>
           (fIndex firstIndex + sz) mod 2 ^ 64
             \<le> (fIndex (fFirstIndex b) + fSize b) mod 2 ^ 64)"



text \<open>
  \<^verbatim>\<open>GetValuePtrAt\<close> (lines 303-306):
  \<^verbatim>\<open>return reinterpret_cast<unsigned char *>(fValues) + idx * fValueSize;\<close>
\<close>

definition GetValuePtrAt :: "RBulk \<Rightarrow> nat \<Rightarrow> addr" where
  "GetValuePtrAt b idx = fValues b + idx * fValueSize b"

text \<open>
  The memory management of the value array (\<^verbatim>\<open>malloc\<close>, construction, destruction and
  \<^verbatim>\<open>free\<close> of the values) is in \<^verbatim>\<open>RField.cxx\<close>: its effect on the world is a parameter.
  \<open>alloc_values n valueSize\<close> allocates and constructs an array of \<open>n\<close> values and
  returns its address; \<open>release_values p n\<close> destroys and frees the \<open>n\<close> values at \<open>p\<close>.
\<close>

record 'w value_memory =
  alloc_values :: "nat \<Rightarrow> nat \<Rightarrow> 'w \<Rightarrow> addr \<times> 'w"
  release_values :: "addr \<Rightarrow> nat \<Rightarrow> 'w \<Rightarrow> 'w"

text \<open>
  Modelled from the spec: the bodies of \<^verbatim>\<open>RBulk::ReleaseValues\<close>, \<^verbatim>\<open>RBulk::Reset\<close> and
  \<^verbatim>\<open>RBulk::CountValidValues\<close> (declared at lines 289-293, defined in \<^verbatim>\<open>RField.cxx\<close>) are
  missing. The spec (4.2): "the handle is reset: the value array is resized (destroying
  the old contents first), \<open>maskAvail\<close> is cleared, and the range is adopted"; (3) the
  valid count is the "count of valid slots". The declaration's comment (lines 290-291)
  says when the array is resized: "Sets a new range for the bulk. If there is enough
  capacity, the \<^verbatim>\<open>fValues\<close> array will be reused. Otherwise a new array is allocated.
  After reset, \<^verbatim>\<open>fMaskAvail\<close> is false for all values." The comment on \<^verbatim>\<open>fNValidValues\<close>
  (line 282): "the sum of non-zero elements in the \<^verbatim>\<open>fMask\<close>".
\<close>

definition ReleaseValues :: "'w value_memory \<Rightarrow> RBulk \<Rightarrow> 'w state \<Rightarrow> 'w state" where
  "ReleaseValues M b s =
     note_call (Call_ReleaseValues (fValues b) (fCapacity b))
       (release_values M (fValues b) (fCapacity b)) s"

definition Reset ::
  "'w value_memory \<Rightarrow> RClusterIndex \<Rightarrow> nat \<Rightarrow> RBulk \<Rightarrow> 'w state \<Rightarrow> RBulk \<times> 'w state" where
  "Reset M firstIndex sz b s =
     (case (if fCapacity b < sz
            then let s' = ReleaseValues M b s;
                     pw = alloc_values M sz (fValueSize b) (mem s')
                 in (b\<lparr> fValues := fst pw, fCapacity := sz,
                        fMaskAvail := replicate sz False \<rparr>,
                     s'\<lparr> mem := snd pw,
                         calls := calls s' @ [Call_AllocValues sz (fValueSize b)] \<rparr>)
            else (b, s)) of
        (b1, s1) \<Rightarrow>
          (b1\<lparr> fMaskAvail := std_fill (fMaskAvail b1) sz False,
               fNValidValues := 0,
               fFirstIndex := firstIndex,
               fSize := sz \<rparr>, s1))"

definition CountValidValues :: "RBulk \<Rightarrow> RBulk" where
  "CountValidValues b =
     b\<lparr> fNValidValues := length (filter (\<lambda>v. v) (take (fSize b) (fMaskAvail b))) \<rparr>"

text \<open>
  \<^verbatim>\<open>RBulk::ReadBulk\<close>, lines 326-349: what follows the reset.
  \<^verbatim>\<open>auto offset = firstIndex.GetIndex() - fFirstIndex.GetIndex();\<close>
  \<^verbatim>\<open>if (fNValidValues == fSize) return GetValuePtrAt(offset);\<close>
  \<^verbatim>\<open>RBulkSpec bulkSpec; ... bulkSpec.fMaskAvail = &fMaskAvail[offset];\<close>
  \<^verbatim>\<open>bulkSpec.fValues = GetValuePtrAt(offset); bulkSpec.fAuxData = &fAuxData;\<close>
  \<^verbatim>\<open>auto nRead = fField->ReadBulk(bulkSpec);\<close>
  \<^verbatim>\<open>if (nRead == RBulkSpec::kAllSet) {\<close>
  \<^verbatim>\<open>   if ((offset == 0) && (size == fSize)) { fNValidValues = fSize; }\<close>
  \<^verbatim>\<open>   else { CountValidValues(); }\<close>
  \<^verbatim>\<open>} else { fNValidValues += nRead; }\<close>
  \<^verbatim>\<open>return GetValuePtrAt(offset);\<close>
  The subtraction is exact: the function runs with \<^verbatim>\<open>ContainsRange\<close> true or right
  after \<^verbatim>\<open>Reset\<close>, so \<^verbatim>\<open>firstIndex.GetIndex()\<close> is not below \<^verbatim>\<open>fFirstIndex.GetIndex()\<close>. The
  field gets the \<open>sz\<close> flags from \<open>offset\<close> on (\<open>sz\<close> is the parameter \<^verbatim>\<open>size\<close>), and what it leaves there is written
  back to the array of the bulk.
\<close>

definition RBulk_ReadBulk_in_range ::
  "'w RFieldBase \<Rightarrow> RBulk \<Rightarrow> RClusterIndex \<Rightarrow> bool list \<Rightarrow> nat \<Rightarrow> 'w state
     \<Rightarrow> addr \<times> RBulk \<times> 'w state" where
  "RBulk_ReadBulk_in_range field b firstIndex maskReq sz s =
     (let offset = fIndex firstIndex - fIndex (fFirstIndex b) in
      if fNValidValues b = fSize b then (GetValuePtrAt b offset, b, s)
      else
        (case ReadBulk field
                \<lparr> bs_fFirstIndex = firstIndex, bs_fCount = sz, bs_fMaskReq = maskReq,
                  bs_fMaskAvail = take sz (drop offset (fMaskAvail b)),
                  bs_fValues = GetValuePtrAt b offset, bs_fAuxData = fAuxData b \<rparr> s of
           (nRead, bulkSpec, s') \<Rightarrow>
             let b1 = b\<lparr> fMaskAvail := take offset (fMaskAvail b) @ bs_fMaskAvail bulkSpec
                                          @ drop (offset + sz) (fMaskAvail b),
                         fAuxData := bs_fAuxData bulkSpec \<rparr>;
                 b2 = (if nRead = kAllSet
                       then (if offset = 0 \<and> sz = fSize b1
                             then b1\<lparr> fNValidValues := fSize b1 \<rparr>
                             else CountValidValues b1)
                       else b1\<lparr> fNValidValues := fNValidValues b1 + nRead \<rparr>)
             in (GetValuePtrAt b2 offset, b2, s')))"

text \<open>
  \<^verbatim>\<open>RBulk::ReadBulk\<close> (lines 321-350):
  \<^verbatim>\<open>if (!ContainsRange(firstIndex, size)) Reset(firstIndex, size);\<close>
  and then the rest. The result is the returned pointer, the bulk and the state.
\<close>

definition RBulk_ReadBulk ::
  "'w value_memory \<Rightarrow> 'w RFieldBase \<Rightarrow> RBulk \<Rightarrow> RClusterIndex \<Rightarrow> bool list \<Rightarrow> nat
     \<Rightarrow> 'w state \<Rightarrow> addr \<times> RBulk \<times> 'w state" where
  "RBulk_ReadBulk M field b firstIndex maskReq sz s =
     (case (if \<not> ContainsRange b firstIndex sz then Reset M firstIndex sz b s else (b, s)) of
        (b1, s1) \<Rightarrow> RBulk_ReadBulk_in_range field b1 firstIndex maskReq sz s1)"


section \<open>\<^verbatim>\<open>RValue\<close> (lines 211-265), \<^verbatim>\<open>BindValue\<close> and \<^verbatim>\<open>GenerateValue\<close>\<close>

text \<open>
  \<^verbatim>\<open>fField\<close> points to the field that created the value: here the address of the field.
  \<^verbatim>\<open>DestroyValue(objPtr, dtorOnly)\<close> is a virtual function of the field (declared at line
  454, defined in \<^verbatim>\<open>RField.cxx\<close> and overridden by the concrete fields): its effect on
  the world is a parameter, given the field.
\<close>

record RValue =
  fField :: addr
  fObjPtr :: addr
  fIsOwning :: bool

text \<open>
  The private constructor (line 220):
  \<^verbatim>\<open>RValue(RFieldBase *field, void *objPtr, bool isOwning)\<close>
  \<^verbatim>\<open>   : fField(field), fObjPtr(objPtr), fIsOwning(isOwning) {}\<close>
\<close>

definition RValue_ctor :: "addr \<Rightarrow> addr \<Rightarrow> bool \<Rightarrow> RValue" where
  "RValue_ctor field objPtr isOwning =
     \<lparr> fField = field, fObjPtr = objPtr, fIsOwning = isOwning \<rparr>"

text \<open>
  \<^verbatim>\<open>DestroyIfOwning\<close> (lines 222-226):
  \<^verbatim>\<open>if (fIsOwning) fField->DestroyValue(fObjPtr);\<close>
  The second argument of \<^verbatim>\<open>DestroyValue\<close> takes its default, \<^verbatim>\<open>dtorOnly = false\<close>: the
  object is destroyed and its memory freed.
\<close>

definition DestroyIfOwning ::
  "(addr \<Rightarrow> addr \<Rightarrow> bool \<Rightarrow> 'w \<Rightarrow> 'w) \<Rightarrow> RValue \<Rightarrow> 'w state \<Rightarrow> 'w state" where
  "DestroyIfOwning DestroyValue v s =
     (if fIsOwning v
      then note_call (Call_DestroyValue (fField v) (fObjPtr v) False)
             (DestroyValue (fField v) (fObjPtr v) False) s
      else s)"

text \<open>The destructor (line 241): \<^verbatim>\<open>~RValue() { DestroyIfOwning(); }\<close>\<close>

definition RValue_dtor ::
  "(addr \<Rightarrow> addr \<Rightarrow> bool \<Rightarrow> 'w \<Rightarrow> 'w) \<Rightarrow> RValue \<Rightarrow> 'w state \<Rightarrow> 'w state" where
  "RValue_dtor DestroyValue v s = DestroyIfOwning DestroyValue v s"

text \<open>
  The move constructor (line 231):
  \<^verbatim>\<open>RValue(RValue &&other) : fField(other.fField), fObjPtr(other.fObjPtr)\<close>
  \<^verbatim>\<open>{ std::swap(fIsOwning, other.fIsOwning); }\<close>
  \<^verbatim>\<open>fIsOwning\<close> of the new value starts as \<^verbatim>\<open>false\<close> (its member initialiser). The result
  is the new value and what is left of \<open>other\<close>. (The object under construction is a new
  one: it is not \<open>other\<close>.)
\<close>

definition RValue_move_ctor :: "RValue \<Rightarrow> RValue \<times> RValue" where
  "RValue_move_ctor other =
     (\<lparr> fField = fField other, fObjPtr = fObjPtr other, fIsOwning = fIsOwning other \<rparr>,
      other\<lparr> fIsOwning := False \<rparr>)"

text \<open>
  The move assignment (lines 232-240):
  \<^verbatim>\<open>DestroyIfOwning(); fIsOwning = false;\<close>
  \<^verbatim>\<open>std::swap(fField, other.fField); std::swap(fObjPtr, other.fObjPtr);\<close>
  \<^verbatim>\<open>std::swap(fIsOwning, other.fIsOwning); return *this;\<close>
  There is no test for \<^verbatim>\<open>&other == this\<close>, and the function writes to both objects, so
  the two handles are taken by their addresses in a store of handles: \<open>this\<close> and
  \<open>other\<close> may be the same address. \<^verbatim>\<open>std::swap(x.m, y.m)\<close> is
  \<^verbatim>\<open>tmp = x.m; x.m = y.m; y.m = tmp\<close>, one definition for each of the three members. The
  result is the store and the state.
\<close>

type_synonym handles = "addr \<Rightarrow> RValue"

definition swap_fField :: "addr \<Rightarrow> addr \<Rightarrow> handles \<Rightarrow> handles" where
  "swap_fField x y h =
     (let tmp = fField (h x);
          h1 = h(x := (h x)\<lparr> fField := fField (h y) \<rparr>)
      in h1(y := (h1 y)\<lparr> fField := tmp \<rparr>))"

definition swap_fObjPtr :: "addr \<Rightarrow> addr \<Rightarrow> handles \<Rightarrow> handles" where
  "swap_fObjPtr x y h =
     (let tmp = fObjPtr (h x);
          h1 = h(x := (h x)\<lparr> fObjPtr := fObjPtr (h y) \<rparr>)
      in h1(y := (h1 y)\<lparr> fObjPtr := tmp \<rparr>))"

definition swap_fIsOwning :: "addr \<Rightarrow> addr \<Rightarrow> handles \<Rightarrow> handles" where
  "swap_fIsOwning x y h =
     (let tmp = fIsOwning (h x);
          h1 = h(x := (h x)\<lparr> fIsOwning := fIsOwning (h y) \<rparr>)
      in h1(y := (h1 y)\<lparr> fIsOwning := tmp \<rparr>))"

definition RValue_move_assign ::
  "(addr \<Rightarrow> addr \<Rightarrow> bool \<Rightarrow> 'w \<Rightarrow> 'w) \<Rightarrow> addr \<Rightarrow> addr \<Rightarrow> handles \<Rightarrow> 'w state
     \<Rightarrow> handles \<times> 'w state" where
  "RValue_move_assign DestroyValue this other h s =
     (let s' = DestroyIfOwning DestroyValue (h this) s;
          h1 = h(this := (h this)\<lparr> fIsOwning := False \<rparr>);
          h2 = swap_fField this other h1;
          h3 = swap_fObjPtr this other h2;
          h4 = swap_fIsOwning this other h3
      in (h4, s'))"

text \<open>\<^verbatim>\<open>GetNonOwningCopy\<close> (line 243): \<^verbatim>\<open>return RValue(fField, fObjPtr, false);\<close>\<close>

definition GetNonOwningCopy :: "RValue \<Rightarrow> RValue" where
  "GetNonOwningCopy v = RValue_ctor (fField v) (fObjPtr v) False"

text \<open>
  \<^verbatim>\<open>Release\<close> (lines 245-252): \<^verbatim>\<open>fIsOwning = false; void *result = nullptr;\<close>
  \<^verbatim>\<open>std::swap(result, fObjPtr); return static_cast<T *>(result);\<close>
  The null pointer is the address 0.
\<close>

definition Release :: "RValue \<Rightarrow> addr \<times> RValue" where
  "Release v = (fObjPtr v, v\<lparr> fIsOwning := False, fObjPtr := 0 \<rparr>)"

text \<open>
  \<^verbatim>\<open>BindValue\<close> (line 649), called on the field at address \<open>this\<close>:
  \<^verbatim>\<open>RValue BindValue(void *where) { return RValue(this, where, false /* isOwning */); }\<close>
\<close>

definition BindValue :: "addr \<Rightarrow> addr \<Rightarrow> RValue" where
  "BindValue this wh = RValue_ctor this wh False"

text \<open>
  Modelled from the spec: the body of \<^verbatim>\<open>RFieldBase::GenerateValue()\<close> (declared at line
  645, defined in \<^verbatim>\<open>RField.cxx\<close>) is missing. The spec (4.1): "Generate() -> owning
  ValueHandle: allocate storage of \<open>ValueSize\<close> bytes aligned to \<open>Alignment\<close>, construct
  the value, return owning handle"; the comment on \<^verbatim>\<open>RValue\<close> (line 209): "Only
  \<^verbatim>\<open>RField::GenerateValue\<close> creates owning \<^verbatim>\<open>RValue\<close>s". The allocation and the virtual
  \<^verbatim>\<open>GenerateValue(void *where)\<close> are parameters: \<open>allocate\<close> returns the address of the
  storage, \<open>construct_at\<close> builds the value there.
\<close>

definition GenerateValue ::
  "('w \<Rightarrow> addr \<times> 'w) \<Rightarrow> (addr \<Rightarrow> 'w \<Rightarrow> 'w) \<Rightarrow> addr \<Rightarrow> 'w state \<Rightarrow> RValue \<times> 'w state" where
  "GenerateValue allocate construct_at this s =
     (let pw = allocate (mem s)
      in (RValue_ctor this (fst pw) True, s\<lparr> mem := construct_at (fst pw) (snd pw) \<rparr>))"

text \<open>
  Modelled from the spec: the bodies of \<^verbatim>\<open>SplitValue\<close> (declared virtual at line 653 and
  overridden by the composite fields, all defined in \<^verbatim>\<open>RField.cxx\<close>) are missing. The
  spec (4.1): "Split(value) -> list of child ValueHandles: for composite fields, returns
  non-owning handles pointing into the object's interior; for variants returns a handle
  for the active alternative only; for leaves returns empty"; the comment on \<^verbatim>\<open>fObjPtr\<close>
  (line 216): "a non-owning pointer from \<^verbatim>\<open>SplitValue()\<close> or \<^verbatim>\<open>BindValue()\<close>". Which
  sub-fields get a handle, and on which interior addresses, depends on the class of the
  field: it is the parameter \<open>parts\<close>, a list of pairs of a sub-field and an address.
\<close>

definition SplitValue :: "(RValue \<Rightarrow> (addr \<times> addr) list) \<Rightarrow> RValue \<Rightarrow> RValue list" where
  "SplitValue parts v = map (\<lambda>(subField, wh). BindValue subField wh) (parts v)"

section \<open>Connecting a field to a page sink; \<^verbatim>\<open>RCardinalityField\<close> (lines 1527-1548)\<close>

datatype RException = RException string

datatype EState = kUnconnected | kConnectedToSink | kConnectedToSource

text \<open>
  What connecting changes in a field: its state (line 371) and its columns (line
  417), with the principal column (line 415) as an index into them.
\<close>

record 'c connection =
  fState :: EState
  fColumns :: "'c list"
  fPrincipal :: "nat option"

text \<open>
  The classes whose write-path \<^verbatim>\<open>GenerateColumnsImpl()\<close> is defined in the header:
  \<^verbatim>\<open>RFieldZero\<close> (line 729) and \<^verbatim>\<open>RRecordField\<close> (970), \<^verbatim>\<open>void GenerateColumnsImpl() final {}\<close>,
  and \<^verbatim>\<open>RCardinalityField\<close> (1535-1536):
  \<^verbatim>\<open>// Field is only used for reading\<close>
  \<^verbatim>\<open>void GenerateColumnsImpl() final\<close>
  \<^verbatim>\<open>{ throw RException(R__FAIL("Cardinality fields must only be used for reading")); }\<close>
  For every other class the function is defined in \<^verbatim>\<open>RField.cxx\<close>: a parameter.
\<close>

datatype field_class = RFieldZero_class | RRecordField_class | RCardinalityField_class
  | Other_class

definition GenerateColumnsImpl ::
  "('c connection \<Rightarrow> RException + 'c connection) \<Rightarrow> field_class \<Rightarrow> 'c connection
     \<Rightarrow> RException + 'c connection" where
  "GenerateColumnsImpl other cls f =
     (case cls of
        RFieldZero_class \<Rightarrow> Inr f
      | RRecordField_class \<Rightarrow> Inr f
      | RCardinalityField_class \<Rightarrow>
          Inl (RException ''Cardinality fields must only be used for reading'')
      | Other_class \<Rightarrow> other f)"

text \<open>
  Modelled from the spec: the body of \<^verbatim>\<open>RFieldBase::ConnectPageSink\<close> (declared at line
  696, defined in \<^verbatim>\<open>RField.cxx\<close>) is missing. The spec (4.1, Connect-to-sink): "1. Call
  \<open>GenerateColumnsForWrite()\<close> (concrete field populates its column list from its chosen
  representation). 2. Adjust representation per write options. 3. Assign the first
  column (if any) as the principal column. 4. Recurse into children"; (3) "a field
  transitions: unconnected -> connected-to-sink"; (7) "connection errors abort the
  connect and leave the subtree unconnected and columnless". The adjustment of the
  representation (it precedes the generation of the columns and picks their types) and
  the recursion into the children are left out: a cardinality field is a leaf, and
  neither changes whether the generation of the columns throws.
\<close>

definition ConnectPageSink ::
  "('c connection \<Rightarrow> RException + 'c connection) \<Rightarrow> field_class \<Rightarrow> 'c connection
     \<Rightarrow> RException + 'c connection" where
  "ConnectPageSink other cls f =
     (case GenerateColumnsImpl other cls f of
        Inl e \<Rightarrow> Inl e
      | Inr f' \<Rightarrow>
          Inr (f'\<lparr> fPrincipal := (if fColumns f' = [] then None else Some 0),
                   fState := kConnectedToSink \<rparr>))"

section \<open>The schema iterator (lines 566-622, 706-715)\<close>

















section \<open>\<^verbatim>\<open>RField<RNTupleCardinality<SizeT>>::ReadBulkImpl\<close> (lines 1642-1666)\<close>

text \<open>
  Modelled from the spec: the offset column of a collection and its member functions
  \<^verbatim>\<open>RColumn::MapV\<close> and \<^verbatim>\<open>RColumn::GetCollectionInfo\<close> (\<^verbatim>\<open>ROOT/RColumn.hxx\<close> is not among
  the sources). The spec (4.3): the offset column holds one offset per entry, "collection
  offsets are cluster-local; the offset of entry \<open>i\<close> within a cluster is the number of
  items in the cluster up to and including entry \<open>i\<close>"; "on read, derive \<open>[begin, end)\<close>
  from two consecutive offsets (or 0 if at cluster start)". The spec (6):
  "\<open>GetCollectionInfo(columnHandle, globalIndex) -> (cluster, firstItemIndex, size)\<close>;
  \<open>MapV(columnHandle, globalIndex) -> (pointer, nItemsUntilPageEnd)\<close> for zero-copy
  bulk"; a page is a run of packed column elements.

  The column is, per cluster, the list of its pages, each the list of its offsets
  (\<^verbatim>\<open>ClusterSize_t\<close>, a 64-bit unsigned integer). \<open>MapV\<close> at a cluster index returns the
  offsets from that index to the end of its page (the array behind the pointer) and
  their number; \<open>None\<close> for an index outside the cluster, where the source throws.
\<close>

record offset_column =
  col_pages :: "nat \<Rightarrow> 64 word list list"

definition cluster_offsets :: "offset_column \<Rightarrow> nat \<Rightarrow> 64 word list" where
  "cluster_offsets col c = concat (col_pages col c)"

fun page_from :: "'a list list \<Rightarrow> nat \<Rightarrow> 'a list option" where
  "page_from [] i = None"
| "page_from (pg # pgs) i =
     (if i < length pg then Some (drop i pg) else page_from pgs (i - length pg))"

definition MapV :: "offset_column \<Rightarrow> RClusterIndex \<Rightarrow> (64 word list \<times> nat) option" where
  "MapV col ci =
     map_option (\<lambda>v. (v, length v)) (page_from (col_pages col (fClusterId ci)) (fIndex ci))"

definition GetCollectionInfo ::
  "offset_column \<Rightarrow> RClusterIndex \<Rightarrow> (RClusterIndex \<times> 64 word) option" where
  "GetCollectionInfo col ci =
     (let offs = cluster_offsets col (fClusterId ci); i = fIndex ci in
      if i < length offs
      then let idxStart = (if i = 0 then 0 else offs ! (i - 1)); idxEnd = offs ! i
           in Some (\<lparr> fClusterId = fClusterId ci, fIndex = unat idxStart \<rparr>, idxEnd - idxStart)
      else None)"

text \<open>
  The inner loop, over one batch. \<open>cardinality\<close> is the conversion of a 64-bit size
  to \<^verbatim>\<open>RNTupleCardinality<SizeT>\<close> (declared in \<^verbatim>\<open>RNTupleUtil.hxx\<close>, not among the sources):
  a parameter. The state is the value array and \<^verbatim>\<open>lastOffset\<close>.
  \<^verbatim>\<open>for (std::size_t i = 0; i < nBatch; ++i) {\<close>
  \<^verbatim>\<open>   typedValues[nEntries + i] = offsets[i] - lastOffset;\<close>
  \<^verbatim>\<open>   lastOffset = offsets[i]; }\<close>
  The subtraction is one of 64-bit unsigned integers.
\<close>

definition fill_batch ::
  "(64 word \<Rightarrow> 'c) \<Rightarrow> 64 word list \<Rightarrow> nat \<Rightarrow> nat \<Rightarrow> 'c list \<times> 64 word
     \<Rightarrow> 'c list \<times> 64 word" where
  "fill_batch cardinality offsets nEntries nBatch st =
     fold (\<lambda>i (typedValues, lastOffset).
             (typedValues[nEntries + i := cardinality (offsets ! i - lastOffset)], offsets ! i))
       [0..<nBatch] st"

text \<open>
  The outer loop (lines 1654-1664):
  \<^verbatim>\<open>while (nRemainingEntries > 0) {\<close>
  \<^verbatim>\<open>   NTupleSize_t nItemsUntilPageEnd;\<close>
  \<^verbatim>\<open>   auto offsets = fPrincipalColumn->MapV<ClusterSize_t>(bulkSpec.fFirstIndex + nEntries, nItemsUntilPageEnd);\<close>
  \<^verbatim>\<open>   std::size_t nBatch = std::min(nRemainingEntries, nItemsUntilPageEnd);\<close>
  \<^verbatim>\<open>   ... nRemainingEntries -= nBatch; nEntries += nBatch; }\<close>
  The result is \<open>None\<close> when the column cannot map the index, and when a batch is empty:
  then the loop of the source makes no progress and does not end. The last argument
  records the batches, each as the entry it starts at and its number of entries.
\<close>

function ReadBulkImpl_loop ::
  "(64 word \<Rightarrow> 'c) \<Rightarrow> offset_column \<Rightarrow> RClusterIndex \<Rightarrow> nat \<Rightarrow> nat \<Rightarrow> 'c list \<times> 64 word
     \<Rightarrow> (nat \<times> nat) list \<Rightarrow> ('c list \<times> (nat \<times> nat) list) option" where
  "ReadBulkImpl_loop cardinality col firstIndex nRemainingEntries nEntries st batches =
     (if nRemainingEntries > 0
      then (case MapV col (RClusterIndex_plus firstIndex nEntries) of
              None \<Rightarrow> None
            | Some (offsets, nItemsUntilPageEnd) \<Rightarrow>
                let nBatch = min nRemainingEntries nItemsUntilPageEnd in
                if nBatch = 0 then None
                else ReadBulkImpl_loop cardinality col firstIndex (nRemainingEntries - nBatch)
                       (nEntries + nBatch) (fill_batch cardinality offsets nEntries nBatch st)
                       (batches @ [(nEntries, nBatch)]))
      else Some (fst st, batches))"
  by pat_completeness auto
termination
  by (relation "measure (\<lambda>(cardinality, col, firstIndex, nRemainingEntries, rest).
        nRemainingEntries)") auto

declare ReadBulkImpl_loop.simps [simp del]

text \<open>
  \<^verbatim>\<open>ReadBulkImpl\<close> (lines 1642-1666):
  \<^verbatim>\<open>fPrincipalColumn->GetCollectionInfo(bulkSpec.fFirstIndex, &collectionStart, &collectionSize);\<close>
  \<^verbatim>\<open>auto typedValues = static_cast<RNTupleCardinality<SizeT> *>(bulkSpec.fValues);\<close>
  \<^verbatim>\<open>typedValues[0] = collectionSize;\<close>
  \<^verbatim>\<open>auto lastOffset = collectionStart.GetIndex() + collectionSize;\<close>
  \<^verbatim>\<open>ClusterSize_t::ValueType nRemainingEntries = bulkSpec.fCount - 1;\<close>
  \<^verbatim>\<open>std::size_t nEntries = 1;\<close>
  the loop, and \<^verbatim>\<open>return RBulkSpec::kAllSet;\<close>
  \<open>typedValues\<close> is the array at \<^verbatim>\<open>bulkSpec.fValues\<close>; the result is the return value, the
  array and the batches. \<^verbatim>\<open>fCount - 1\<close> is a difference of 64-bit unsigned integers: it
  wraps around for \<^verbatim>\<open>fCount = 0\<close>. A write past the end of the array, undefined in the
  C++, leaves the list as it is.
\<close>

definition RCardinalityField_ReadBulkImpl ::
  "(64 word \<Rightarrow> 'c) \<Rightarrow> offset_column \<Rightarrow> RBulkSpec \<Rightarrow> 'c list
     \<Rightarrow> (nat \<times> 'c list \<times> (nat \<times> nat) list) option" where
  "RCardinalityField_ReadBulkImpl cardinality col bulkSpec typedValues =
     (case GetCollectionInfo col (bs_fFirstIndex bulkSpec) of
        None \<Rightarrow> None
      | Some (collectionStart, collectionSize) \<Rightarrow>
          map_option (\<lambda>(vals, batches). (kAllSet, vals, batches))
            (ReadBulkImpl_loop cardinality col (bs_fFirstIndex bulkSpec)
               ((bs_fCount bulkSpec + 2 ^ 64 - 1) mod 2 ^ 64) 1
               (typedValues[0 := cardinality collectionSize],
                word_of_nat (fIndex collectionStart) + collectionSize) []))"

text \<open>
  "In page-sized batches": the batches follow one another from entry \<open>e\<close> on, none is
  empty, and each lies within the page of its first entry (its number of entries is at
  most what \<open>MapV\<close> reports there as the number of items until the end of the page).
\<close>

fun batches_from ::
  "offset_column \<Rightarrow> RClusterIndex \<Rightarrow> nat \<Rightarrow> (nat \<times> nat) list \<Rightarrow> bool" where
  "batches_from col firstIndex e [] = True"
| "batches_from col firstIndex e ((s, n) # bs) =
     (s = e \<and> 0 < n
      \<and> (case MapV col (RClusterIndex_plus firstIndex s) of
            Some (v, m) \<Rightarrow> n \<le> m | None \<Rightarrow> False)
      \<and> batches_from col firstIndex (e + n) bs)"

section \<open>Example instances\<close>

text \<open>
  A world that only counts: each column operation adds a different amount, so that the
  result shows which operations ran. \<open>example_field\<close> is a field over that column
  whose virtual implementations add amounts of their own.
\<close>

definition example_column :: "nat RColumn" where
  "example_column =
     \<lparr> col_Append = (\<lambda>_ w. w + 1), col_Read = (\<lambda>_ _ w. w + 10),
        col_Read_cluster = (\<lambda>_ _ w. w + 100), col_ReadV = (\<lambda>_ n _ w. w + 1000 * n),
        col_PackedSize = 4 \<rparr>"

definition example_field ::
  "bool \<Rightarrow> 32 word \<Rightarrow> (addr \<Rightarrow> nat \<Rightarrow> nat) list \<Rightarrow> nat RFieldBase" where
  "example_field simple traits callbacks =
     \<lparr> fIsSimple = simple, fTraits = traits, fReadCallbacks = callbacks,
        fPrincipalColumn = example_column,
        AppendImpl = (\<lambda>_ w. (8, w + 2)),
        ReadGlobalImpl = (\<lambda>_ _ w. w + 20),
        ReadInClusterImpl = (\<lambda>_ _ w. w + 200),
        ReadBulkImpl = (\<lambda>spec w. (0, spec, w + 2000)) \<rparr>"

definition state0 :: "nat state" where
  "state0 = \<lparr> mem = 0, calls = [] \<rparr>"






text \<open>
  A store of value handles: at address 1 an owning handle on the object at 128, at
  address 2 an owning handle on the object at 256, both of the field at 16; and a
  \<^verbatim>\<open>DestroyValue\<close> that adds the address of the object to the world.
\<close>

definition example_handles :: handles where
  "example_handles =
     (\<lambda>a. RValue_ctor 0 0 False)(1 := RValue_ctor 16 128 True, 2 := RValue_ctor 16 256 True)"

definition example_DestroyValue :: "addr \<Rightarrow> addr \<Rightarrow> bool \<Rightarrow> nat \<Rightarrow> nat" where
  "example_DestroyValue field p dtorOnly w = w + p"



text \<open>
  The offset column of the collections \<open>[1,2,3], [], [4], [5,6], [7,8,9,10]\<close> in cluster
  0, in pages of two, one and two offsets.
\<close>

definition example_offsets :: offset_column where
  "example_offsets = \<lparr> col_pages = (\<lambda>c. if c = 0 then [[3, 3], [4], [6, 10]] else []) \<rparr>"

chapter \<open>Properties\<close>

section \<open>Traits\<close>

lemma has_trait_bit0: "has_trait a 1 = bit a 0"
  using and_exp_eq_0_iff_not_bit [of a 0] by (simp add: has_trait_def)

lemma has_trait_bit1: "has_trait a 2 = bit a 1"
  using and_exp_eq_0_iff_not_bit [of a 1] by (simp add: has_trait_def)

lemma has_trait_bit2: "has_trait a 4 = bit a 2"
  using and_exp_eq_0_iff_not_bit [of a 2] by (simp add: has_trait_def)

lemma has_trait_and:
  "k = 1 \<or> k = 2 \<Longrightarrow> has_trait (a AND b) k = (has_trait a k \<and> has_trait b k)"
  by (auto simp: has_trait_bit0 has_trait_bit1 bit_and_iff)

lemma has_trait_NOT_mappable:
  "has_trait (NOT t) kTraitMappable = (\<not> has_trait t kTraitMappable)"
  by (simp add: kTraitMappable_def has_trait_bit2 bit_not_iff)

section \<open>Append\<close>

text \<open>
  Claim C2. For a field whose traits include \<^verbatim>\<open>kTraitMappable\<close>, \<^verbatim>\<open>Append(from)\<close> makes
  exactly one call, the append of the value to the principal column (so \<^verbatim>\<open>AppendImpl\<close>
  is not called), and returns the packed size of the principal column's element.
\<close>

theorem Append_mappable:
  assumes "has_trait (fTraits f) kTraitMappable"
  shows "Append f from s =
           (col_PackedSize (fPrincipalColumn f),
            s\<lparr> mem := col_Append (fPrincipalColumn f) from (mem s),
               calls := calls s @ [Column_Append from] \<rparr>)"
  using assms by (simp add: Append_def has_trait_NOT_mappable note_call_def)

theorem Append_mappable_witness:
  "has_trait (fTraits (example_field True 7 [])) kTraitMappable \<and>
   Append (example_field True 7 []) 64 state0
     = (4, \<lparr> mem = 1, calls = [Column_Append 64] \<rparr>)"
  using Append_mappable [of "example_field True 7 []" 64 state0]
  by (simp add: example_field_def example_column_def state0_def has_trait_def kTraitMappable_def)

section \<open>The traits of a record field\<close>

lemma RRecordField_traits_foldl:
  "rf_fTraits (foldl (RRecordField_add_item pad) r ios)
     = foldl (\<lambda>t item. t AND GetTraits item) (rf_fTraits r) (map fst ios)"
  by (induction ios arbitrary: r) (simp_all add: RRecordField_add_item_def split: prod.splits)

lemma has_trait_foldl_AND:
  "k = 1 \<or> k = 2 \<Longrightarrow>
   has_trait (foldl (\<lambda>t item. t AND GetTraits item) t0 items) k
     = (has_trait t0 k \<and> (\<forall>item \<in> set items. has_trait (GetTraits item) k))"
  by (induction items arbitrary: t0) (auto simp: has_trait_and)

lemma RRecordField_ctor_traits:
  assumes "length offsets = length itemFields"
  shows "rf_fTraits (RRecordField_ctor pad name itemFields offsets typeName)
           = foldl (\<lambda>t item. t AND GetTraits item) kTraitTrivialType itemFields"
  using assms
  by (simp add: RRecordField_ctor_def RRecordField_traits_foldl RFieldBase_init_traits_def)

text \<open>
  Claim C10. For a record field constructed from a list of item fields (with one offset
  per item), \<^verbatim>\<open>fTraits\<close> is the bitwise AND of \<^verbatim>\<open>kTraitTrivialType\<close> and the traits of all
  items; so the record is trivially constructible if and only if every item is, and
  trivially destructible if and only if every item is.
\<close>

theorem RRecordField_trivial_traits:
  assumes "length offsets = length itemFields"
  shows "rf_fTraits (RRecordField_ctor pad name itemFields offsets typeName)
           = foldl (\<lambda>t item. t AND GetTraits item) kTraitTrivialType itemFields
       \<and> has_trait (rf_fTraits (RRecordField_ctor pad name itemFields offsets typeName))
             kTraitTriviallyConstructible
           = (\<forall>item \<in> set itemFields. has_trait (GetTraits item) kTraitTriviallyConstructible)
       \<and> has_trait (rf_fTraits (RRecordField_ctor pad name itemFields offsets typeName))
             kTraitTriviallyDestructible
           = (\<forall>item \<in> set itemFields. has_trait (GetTraits item) kTraitTriviallyDestructible)"
proof -
  have c: "has_trait kTraitTrivialType kTraitTriviallyConstructible"
    by (simp add: has_trait_def kTraitTrivialType_def kTraitTriviallyConstructible_def
        kTraitTriviallyDestructible_def)
  have d: "has_trait kTraitTrivialType kTraitTriviallyDestructible"
    by (simp add: has_trait_def kTraitTrivialType_def kTraitTriviallyConstructible_def
        kTraitTriviallyDestructible_def)
  show ?thesis
    unfolding RRecordField_ctor_traits [OF assms]
    using c d
    by (simp add: has_trait_foldl_AND kTraitTriviallyConstructible_def
        kTraitTriviallyDestructible_def)
qed

theorem RRecordField_trivial_traits_witness:
  "has_trait (rf_fTraits (RRecordField_ctor (\<lambda>_ _. 0) ''r''
      [RField ''a'' ''int'' 7 4 4 [], RField ''b'' ''T'' 1 8 8 []] [0, 8] ''R''))
      kTraitTriviallyConstructible
   \<and> \<not> has_trait (rf_fTraits (RRecordField_ctor (\<lambda>_ _. 0) ''r''
      [RField ''a'' ''int'' 7 4 4 [], RField ''b'' ''T'' 1 8 8 []] [0, 8] ''R''))
      kTraitTriviallyDestructible
   \<and> rf_fTraits (RRecordField_ctor (\<lambda>_ _. 0) ''r''
      [RField ''a'' ''int'' 7 4 4 [], RField ''b'' ''T'' 1 8 8 []] [0, 8] ''R'') = 1"
  using RRecordField_trivial_traits [of "[0, 8]"
      "[RField ''a'' ''int'' 7 4 4 [], RField ''b'' ''T'' 1 8 8 []]" "\<lambda>_ _. 0" "''r''" "''R''"]
  by (simp add: has_trait_def kTraitTriviallyConstructible_def kTraitTriviallyDestructible_def
      kTraitTrivialType_def)

section \<open>The value size of a bitset field\<close>

lemma ceil_div_nat:
  assumes b: "0 < (b::nat)"
  shows "nat \<lceil>real n / real b\<rceil> = (n + b - 1) div b"
proof -
  define z where "z = (n + b - 1) div b"
  have lo: "b * z \<le> n + b - 1" unfolding z_def by simp
  have hi: "n + b - 1 < b + b * z"
    unfolding z_def using dividend_less_times_div [OF b, of "n + b - 1"] by simp
  from hi b have ge: "n \<le> b * z" by linarith
  from lo b have lt: "b * z < n + b" by linarith
  have rb: "0 < real b" using b by simp
  have "real n \<le> real (b * z)" using ge by (simp only: of_nat_le_iff)
  then have 1: "real n / real b \<le> of_int (int z)"
    using rb by (simp add: pos_divide_le_eq mult.commute)
  have "real (b * z) < real (n + b)" using lt by (simp only: of_nat_less_iff)
  then have "(real z - 1) * real b < real n" by (simp add: algebra_simps)
  then have 2: "of_int (int z) - 1 < real n / real b"
    using rb by (simp add: pos_less_divide_eq)
  have "\<lceil>real n / real b\<rceil> = int z" using 2 1 by (rule ceiling_unique)
  then show ?thesis by (simp add: z_def)
qed

lemma unat_sum_minus_one:
  fixes x y :: "64 word"
  assumes "0 < unat y" "unat x + unat y - 1 < 2 ^ 64"
  shows "unat (x + y - 1) = unat x + unat y - 1"
proof -
  have "x + y - 1 = word_of_nat (unat x + unat y - 1)"
    using assms(1) by (simp add: of_nat_diff)
  then show ?thesis using assms(2) by (simp add: unat_of_nat)
qed

lemma unat_kBitsPerWord:
  assumes "unat ws * 8 < 2 ^ 64"
  shows "unat (kBitsPerWord ws) = unat ws * 8"
  using assms unat_mult_lem [of ws "8 :: 64 word"] by (simp add: kBitsPerWord_def)

text \<open>
  Claim C9, as amended. For a bitset field of width \<open>N\<close> with \<open>N + bits-per-word - 1\<close>
  below \<open>2^64\<close> (no wrap-around of \<^verbatim>\<open>std::size_t\<close>), \<^verbatim>\<open>GetValueSize()\<close> is the ceiling of
  \<open>N / bits-per-word\<close> times the word size, for every word size \<open>kWordSize > 0\<close> (with
  \<open>8 * kWordSize\<close> below \<open>2^64\<close>).
\<close>

theorem RBitsetField_GetValueSize_ceiling:
  assumes ws: "0 < unat kWordSize" "unat kWordSize * 8 < 2 ^ 64"
    and n: "unat fN + unat (kBitsPerWord kWordSize) - 1 < 2 ^ 64"
  shows "unat (RBitsetField_GetValueSize kWordSize fN)
           = bitset_size_spec (unat kWordSize) (unat fN)"
proof -
  let ?B = "unat kWordSize * 8"
  let ?kB = "kBitsPerWord kWordSize"
  have B: "unat ?kB = ?B" using ws(2) by (rule unat_kBitsPerWord)
  have Bpos: "0 < ?B" using ws(1) by simp
  have n': "unat fN + ?B - 1 < 2 ^ 64" using n by (simp add: B)
  have num: "unat (fN + ?kB - 1) = unat fN + ?B - 1"
    using unat_sum_minus_one [of ?kB fN] Bpos n' by (simp add: B)
  have q: "unat ((fN + ?kB - 1) div ?kB) = (unat fN + ?B - 1) div ?B"
    by (simp add: unat_div num B)
  have "?B * ((unat fN + ?B - 1) div ?B) \<le> unat fN + ?B - 1"
    by (rule times_div_less_eq_dividend)
  moreover have "unat kWordSize * ((unat fN + ?B - 1) div ?B)
                   \<le> ?B * ((unat fN + ?B - 1) div ?B)"
    by (rule mult_le_mono1) simp
  ultimately have "unat kWordSize * ((unat fN + ?B - 1) div ?B) \<le> unat fN + ?B - 1"
    by (rule order_trans [rotated])
  then have small: "unat kWordSize * ((unat fN + ?B - 1) div ?B) < 2 ^ 64"
    using n' by linarith
  have "unat (RBitsetField_GetValueSize kWordSize fN)
          = unat kWordSize * ((unat fN + ?B - 1) div ?B)"
    unfolding RBitsetField_GetValueSize_def
    using small unat_mult_lem [of kWordSize "(fN + ?kB - 1) div ?kB"]
    by (simp add: q)
  also have "\<dots> = bitset_size_spec (unat kWordSize) (unat fN)"
    unfolding bitset_size_spec_def
    using ceil_div_nat [OF Bpos, of "unat fN"] by (simp add: mult.commute)
  finally show ?thesis .
qed

theorem RBitsetField_GetValueSize_witness:
  "unat (RBitsetField_GetValueSize 8 100) = 16 \<and> bitset_size_spec 8 100 = 16"
  using RBitsetField_GetValueSize_ceiling [of 8 100]
  by (simp add: RBitsetField_GetValueSize_def kBitsPerWord_def)

text \<open>
  The claim as stated fails where \<open>N + bits-per-word - 1\<close> wraps around: with 8-byte
  words and \<open>N = 2^64 - 1\<close> the function returns 0, not \<open>2^61\<close>.
\<close>

theorem RBitsetField_GetValueSize_counterexample:
  "unat (RBitsetField_GetValueSize 8 0xFFFFFFFFFFFFFFFF) = 0
   \<and> bitset_size_spec 8 (unat (0xFFFFFFFFFFFFFFFF :: 64 word)) = 2 ^ 61"
  by (simp add: RBitsetField_GetValueSize_def kBitsPerWord_def bitset_size_spec_def)

section \<open>Read and the read callbacks\<close>

lemma InvokeReadCallbacks_from_mem:
  "mem (InvokeReadCallbacks_from k funcs target s)
     = foldl (\<lambda>w func. func target w) (mem s) funcs"
  by (induction funcs arbitrary: k s) (simp_all add: note_call_def)

lemma InvokeReadCallbacks_from_calls:
  "calls (InvokeReadCallbacks_from k funcs target s)
     = calls s @ map (\<lambda>i. Call_ReadCallback i target) [k..<k + length funcs]"
proof (induction funcs arbitrary: k s)
  case Nil
  then show ?case by simp
next
  case (Cons func funcs)
  have "[k..<k + length (func # funcs)] = k # [Suc k..<Suc k + length funcs]"
    by (subst upt_rec) simp
  then show ?case
    by (simp only: InvokeReadCallbacks_from.simps Cons.IH) (simp add: note_call_def)
qed

lemma InvokeReadCallbacks_mem:
  "mem (InvokeReadCallbacks f target s)
     = foldl (\<lambda>w func. func target w) (mem s) (fReadCallbacks f)"
  by (simp add: InvokeReadCallbacks_def InvokeReadCallbacks_from_mem)

lemma InvokeReadCallbacks_calls:
  "calls (InvokeReadCallbacks f target s)
     = calls s @ callback_calls (length (fReadCallbacks f)) target"
  by (simp add: InvokeReadCallbacks_def InvokeReadCallbacks_from_calls callback_calls_def)

lemma Read_not_simple:
  assumes "\<not> fIsSimple f"
  shows "mem (Read f i to s)
           = foldl (\<lambda>w func. func to w) (mem (Read_populated f i to s)) (fReadCallbacks f)"
    and "calls (Read f i to s)
           = calls (Read_populated f i to s) @ callback_calls (length (fReadCallbacks f)) to"
  using assms
  by (simp_all add: Read_def Read_populated_def Let_def InvokeReadCallbacks_mem
      InvokeReadCallbacks_calls callback_calls_def)

lemma Read_cluster_not_simple:
  assumes "\<not> fIsSimple f"
  shows "mem (Read_cluster f ci to s)
           = foldl (\<lambda>w func. func to w) (mem (Read_cluster_populated f ci to s))
               (fReadCallbacks f)"
    and "calls (Read_cluster f ci to s)
           = calls (Read_cluster_populated f ci to s)
               @ callback_calls (length (fReadCallbacks f)) to"
  using assms
  by (simp_all add: Read_cluster_def Read_cluster_populated_def Let_def InvokeReadCallbacks_mem
      InvokeReadCallbacks_calls callback_calls_def)

text \<open>
  Claim C1. (a) For a field with the simple flag set, \<^verbatim>\<open>Read\<close> (by global index and by
  cluster index) is one read of the principal column: the only call it makes, so
  neither \<^verbatim>\<open>ReadGlobalImpl\<close>/\<^verbatim>\<open>ReadInClusterImpl\<close> nor a callback is invoked. (b) For a
  field that is not simple, the value is populated first (by the column for a mappable
  field, by the virtual implementation otherwise), and then every registered callback
  is called on the destination address, from the first of \<^verbatim>\<open>fReadCallbacks\<close> to the
  last. (c) Registering a callback appends it to \<^verbatim>\<open>fReadCallbacks\<close>, so the order of the
  list is the order of registration, and clears the simple flag.
\<close>

theorem Read_simple_and_callbacks:
  "(fIsSimple f \<longrightarrow>
      Read f i to s = s\<lparr> mem := col_Read (fPrincipalColumn f) i to (mem s),
                         calls := calls s @ [Column_Read i to] \<rparr>
    \<and> Read_cluster f ci to s
        = s\<lparr> mem := col_Read_cluster (fPrincipalColumn f) ci to (mem s),
             calls := calls s @ [Column_Read_cluster ci to] \<rparr>)
   \<and> (\<not> fIsSimple f \<longrightarrow>
      mem (Read f i to s)
        = foldl (\<lambda>w func. func to w) (mem (Read_populated f i to s)) (fReadCallbacks f)
    \<and> calls (Read f i to s)
        = calls (Read_populated f i to s) @ callback_calls (length (fReadCallbacks f)) to
    \<and> mem (Read_cluster f ci to s)
        = foldl (\<lambda>w func. func to w) (mem (Read_cluster_populated f ci to s)) (fReadCallbacks f)
    \<and> calls (Read_cluster f ci to s)
        = calls (Read_cluster_populated f ci to s)
            @ callback_calls (length (fReadCallbacks f)) to)
   \<and> \<not> fIsSimple (snd (AddReadCallback f func))
   \<and> fReadCallbacks (snd (AddReadCallback f func)) = fReadCallbacks f @ [func]
   \<and> fst (AddReadCallback f func) = length (fReadCallbacks f)"
proof (intro conjI impI)
  assume "fIsSimple f"
  then show "Read f i to s = s\<lparr> mem := col_Read (fPrincipalColumn f) i to (mem s),
                                 calls := calls s @ [Column_Read i to] \<rparr>"
    by (simp add: Read_def note_call_def)
next
  assume "fIsSimple f"
  then show "Read_cluster f ci to s
        = s\<lparr> mem := col_Read_cluster (fPrincipalColumn f) ci to (mem s),
             calls := calls s @ [Column_Read_cluster ci to] \<rparr>"
    by (simp add: Read_cluster_def note_call_def)
qed (simp_all add: Read_not_simple Read_cluster_not_simple AddReadCallback_def)

theorem Read_simple_and_callbacks_witness:
  "Read (example_field True 7 []) 5 64 state0 = \<lparr> mem = 10, calls = [Column_Read 5 64] \<rparr>
   \<and> Read (snd (AddReadCallback (snd (AddReadCallback (example_field True 7 [])
              (\<lambda>_ w. w * 2))) (\<lambda>_ w. w + 1))) 5 64 state0
       = \<lparr> mem = 21,
           calls = [Column_Read 5 64, Call_ReadCallback 0 64, Call_ReadCallback 1 64] \<rparr>
   \<and> Read (example_field False 3 [\<lambda>_ w. w * 2, \<lambda>_ w. w + 1]) 5 64 state0
       = \<lparr> mem = 41,
           calls = [Call_ReadGlobalImpl 5 64, Call_ReadCallback 0 64, Call_ReadCallback 1 64] \<rparr>"
  using Read_simple_and_callbacks [of "example_field True 7 []" 5 64 state0
      "\<lparr> fClusterId = 0, fIndex = 5 \<rparr>" "\<lambda>_ w. w * 2"]
    Read_simple_and_callbacks [of "example_field False 3 [\<lambda>_ w. w * 2, \<lambda>_ w. w + 1]" 5 64
      state0 "\<lparr> fClusterId = 0, fIndex = 5 \<rparr>" "\<lambda>_ w. w"]
  by (simp add: example_field_def example_column_def state0_def AddReadCallback_def Read_def
      InvokeReadCallbacks_def note_call_def has_trait_def kTraitMappable_def)

section \<open>The bulk read of a field\<close>

text \<open>
  Claim C4. For a field with the simple flag set, the bulk read makes one call, the
  vectorised read \<^verbatim>\<open>ReadV\<close> of \<^verbatim>\<open>fCount\<close> values from \<^verbatim>\<open>fFirstIndex\<close> of the principal column
  into \<^verbatim>\<open>fValues\<close>; it sets the first \<^verbatim>\<open>fCount\<close> entries of the availability mask (all of
  them, for a mask of \<^verbatim>\<open>fCount\<close> entries) to true and returns \<^verbatim>\<open>kAllSet\<close>. The required
  mask is not read: with any other required mask the return value, the availability
  mask and the state are the same.
\<close>

theorem ReadBulk_simple:
  assumes "fIsSimple f"
  shows "ReadBulk f bulkSpec s =
           (kAllSet,
            bulkSpec\<lparr> bs_fMaskAvail :=
              replicate (bs_fCount bulkSpec) True
                @ drop (bs_fCount bulkSpec) (bs_fMaskAvail bulkSpec) \<rparr>,
            s\<lparr> mem := col_ReadV (fPrincipalColumn f) (bs_fFirstIndex bulkSpec)
                        (bs_fCount bulkSpec) (bs_fValues bulkSpec) (mem s),
               calls := calls s @ [Column_ReadV (bs_fFirstIndex bulkSpec)
                        (bs_fCount bulkSpec) (bs_fValues bulkSpec)] \<rparr>)
       \<and> (length (bs_fMaskAvail bulkSpec) = bs_fCount bulkSpec \<longrightarrow>
            bs_fMaskAvail (fst (snd (ReadBulk f bulkSpec s)))
              = replicate (bs_fCount bulkSpec) True)
       \<and> fst (ReadBulk f (bulkSpec\<lparr> bs_fMaskReq := maskReq \<rparr>) s) = kAllSet
       \<and> bs_fMaskAvail (fst (snd (ReadBulk f (bulkSpec\<lparr> bs_fMaskReq := maskReq \<rparr>) s)))
           = bs_fMaskAvail (fst (snd (ReadBulk f bulkSpec s)))
       \<and> snd (snd (ReadBulk f (bulkSpec\<lparr> bs_fMaskReq := maskReq \<rparr>) s))
           = snd (snd (ReadBulk f bulkSpec s))"
  using assms by (simp add: ReadBulk_def std_fill_def note_call_def)

theorem ReadBulk_simple_witness:
  "ReadBulk (example_field True 7 [])
     \<lparr> bs_fFirstIndex = \<lparr> fClusterId = 1, fIndex = 100 \<rparr>, bs_fCount = 3,
       bs_fMaskReq = [True, False, False], bs_fMaskAvail = [False, True, False],
       bs_fValues = 64, bs_fAuxData = [] \<rparr> state0
   = (kAllSet,
      \<lparr> bs_fFirstIndex = \<lparr> fClusterId = 1, fIndex = 100 \<rparr>, bs_fCount = 3,
        bs_fMaskReq = [True, False, False], bs_fMaskAvail = [True, True, True],
        bs_fValues = 64, bs_fAuxData = [] \<rparr>,
      \<lparr> mem = 3000, calls = [Column_ReadV \<lparr> fClusterId = 1, fIndex = 100 \<rparr> 3 64] \<rparr>)"
  using ReadBulk_simple [of "example_field True 7 []"
      "\<lparr> bs_fFirstIndex = \<lparr> fClusterId = 1, fIndex = 100 \<rparr>, bs_fCount = 3,
        bs_fMaskReq = [True, False, False], bs_fMaskAvail = [False, True, False],
        bs_fValues = 64, bs_fAuxData = [] \<rparr>" state0 "[]"]
  by (simp add: example_field_def example_column_def state0_def numeral_3_eq_3)

section \<open>The bulk read of a bulk handle\<close>


lemma Reset_bulk:
  "fFirstIndex (fst (Reset M firstIndex sz b s)) = firstIndex"
  "fSize (fst (Reset M firstIndex sz b s)) = sz"
  "fNValidValues (fst (Reset M firstIndex sz b s)) = 0"
  "take sz (fMaskAvail (fst (Reset M firstIndex sz b s))) = replicate sz False"
  "fCapacity (fst (Reset M firstIndex sz b s)) = max (fCapacity b) sz"
  by (simp_all add: Reset_def std_fill_def Let_def)





text \<open>
  A handle on which every slot is valid stays so under every read through a simple
  field: its reads of a contained range return at once. (A handle is constructed with
  no slot, so it starts this way.)
\<close>

lemma simple_field_all_valid:
  assumes "fIsSimple field" and "fNValidValues b = fSize b"
  shows "fNValidValues (fst (snd (RBulk_ReadBulk M field b firstIndex maskReq sz s)))
       = fSize (fst (snd (RBulk_ReadBulk M field b firstIndex maskReq sz s)))"
proof (cases "ContainsRange b firstIndex sz")
  case True
  with assms show ?thesis
    by (simp add: RBulk_ReadBulk_def RBulk_ReadBulk_in_range_def)
next
  case False
  obtain b1 s1 where r: "Reset M firstIndex sz b s = (b1, s1)"
    by (cases "Reset M firstIndex sz b s")
  have b1: "fFirstIndex b1 = firstIndex" "fSize b1 = sz" "fNValidValues b1 = 0"
    using Reset_bulk(1-3) [of M firstIndex sz b s] r by simp_all
  from False r have "RBulk_ReadBulk M field b firstIndex maskReq sz s
      = RBulk_ReadBulk_in_range field b1 firstIndex maskReq sz s1"
    by (simp add: RBulk_ReadBulk_def)
  with assms(1) b1 show ?thesis
    by (simp add: RBulk_ReadBulk_in_range_def ReadBulk_def Let_def)
qed




section \<open>Value handles\<close>

text \<open>What \<^verbatim>\<open>std::swap\<close> of each member leaves in the store.\<close>

lemma RValue_move_assign_store:
  "fst (RValue_move_assign D x y h s)
     = (if x = y then h(x := (h x)\<lparr> fIsOwning := False \<rparr>)
        else h(x := h y, y := (h x)\<lparr> fIsOwning := False \<rparr>))"
  by (auto simp add: RValue_move_assign_def swap_fField_def swap_fObjPtr_def
      swap_fIsOwning_def Let_def fun_eq_iff)

lemma RValue_move_assign_state:
  "snd (RValue_move_assign D x y h s) = RValue_dtor D (h x) s"
  by (simp add: RValue_move_assign_def RValue_dtor_def Let_def)

text \<open>
  Claim C8. The functions that return a handle: \<^verbatim>\<open>BindValue(where)\<close> returns a non-owning
  handle of the field on \<open>where\<close>; the handles of \<^verbatim>\<open>SplitValue\<close> and the handle of
  \<^verbatim>\<open>GetNonOwningCopy\<close> are non-owning; \<^verbatim>\<open>GenerateValue()\<close> returns an owning one. The
  functions that change a handle only hand ownership over or drop it: move construction
  gives the new handle what the source had and leaves the source non-owning, without
  destroying anything; \<^verbatim>\<open>Release\<close> hands the pointer out and leaves the handle non-owning.
  Destroying a handle calls \<^verbatim>\<open>DestroyValue\<close> (destroy and free) on the object once if
  the handle owns it, and does nothing otherwise. Move assignment does to the state
  what the destruction of the assigned handle does. If the source is another handle,
  the assigned handle becomes what the source was, and the source keeps the old object
  without owning it; if the source is the assigned handle itself, the handle keeps its
  object without owning it. No other handle of the store changes, and in both cases the
  later destruction of the source does nothing.
\<close>

theorem RValue_ownership:
  "\<not> fIsOwning (BindValue this wh) \<and> fObjPtr (BindValue this wh) = wh
   \<and> fField (BindValue this wh) = this
   \<and> list_all (\<lambda>part. \<not> fIsOwning part) (SplitValue parts v)
   \<and> \<not> fIsOwning (GetNonOwningCopy v)
   \<and> fIsOwning (fst (GenerateValue allocate construct_at this s))
   \<and> RValue_dtor D v s
       = (if fIsOwning v
          then s\<lparr> mem := D (fField v) (fObjPtr v) False (mem s),
                  calls := calls s @ [Call_DestroyValue (fField v) (fObjPtr v) False] \<rparr>
          else s)
   \<and> snd (RValue_move_assign D x y h s) = RValue_dtor D (h x) s
   \<and> (x \<noteq> y \<longrightarrow>
        fst (RValue_move_assign D x y h s) x = h y
        \<and> fst (RValue_move_assign D x y h s) y = (h x)\<lparr> fIsOwning := False \<rparr>)
   \<and> (x = y \<longrightarrow> fst (RValue_move_assign D x y h s) x = (h x)\<lparr> fIsOwning := False \<rparr>)
   \<and> (\<forall>z. z \<noteq> x \<and> z \<noteq> y \<longrightarrow> fst (RValue_move_assign D x y h s) z = h z)
   \<and> RValue_dtor D (fst (RValue_move_assign D x y h s) y) s' = s'
   \<and> fst (RValue_move_ctor other) = other
   \<and> RValue_dtor D (snd (RValue_move_ctor other)) s' = s'
   \<and> RValue_dtor D (snd (Release v)) s' = s'
   \<and> fst (Release v) = fObjPtr v"
proof -
  have split: "list_all (\<lambda>part. \<not> fIsOwning part) (SplitValue parts v)"
    by (simp add: SplitValue_def list_all_iff BindValue_def RValue_ctor_def split: prod.splits)
  have src: "RValue_dtor D (fst (RValue_move_assign D x y h s) y) s' = s'"
    by (simp add: RValue_move_assign_store RValue_dtor_def DestroyIfOwning_def)
  show ?thesis
    using split src
    by (simp add: RValue_move_assign_store RValue_move_assign_state BindValue_def
        GetNonOwningCopy_def GenerateValue_def RValue_ctor_def RValue_dtor_def
        DestroyIfOwning_def RValue_move_ctor_def Release_def note_call_def Let_def)
qed

theorem RValue_ownership_witness:
  "RValue_dtor example_DestroyValue (BindValue 16 64) state0 = state0
   \<and> RValue_dtor example_DestroyValue
        (fst (GenerateValue (\<lambda>w. (128, w)) (\<lambda>p w. w) 16 state0)) state0
      = \<lparr> mem = 128, calls = [Call_DestroyValue 16 128 False] \<rparr>
   \<and> SplitValue (\<lambda>v. [(17, fObjPtr v), (18, fObjPtr v + 4)]) (example_handles 1)
      = [RValue_ctor 17 128 False, RValue_ctor 18 132 False]
   \<and> snd (RValue_move_assign example_DestroyValue 1 2 example_handles state0)
      = \<lparr> mem = 128, calls = [Call_DestroyValue 16 128 False] \<rparr>
   \<and> fst (RValue_move_assign example_DestroyValue 1 2 example_handles state0) 1
      = RValue_ctor 16 256 True
   \<and> fst (RValue_move_assign example_DestroyValue 1 2 example_handles state0) 2
      = RValue_ctor 16 128 False
   \<and> snd (RValue_move_assign example_DestroyValue 1 1 example_handles state0)
      = \<lparr> mem = 128, calls = [Call_DestroyValue 16 128 False] \<rparr>
   \<and> fst (RValue_move_assign example_DestroyValue 1 1 example_handles state0) 1
      = RValue_ctor 16 128 False
   \<and> fst (RValue_move_assign example_DestroyValue 1 1 example_handles state0) 2
      = RValue_ctor 16 256 True"
  using RValue_ownership [where this = 16 and wh = 64 and v = "example_handles 1"
      and parts = "\<lambda>v. [(17, fObjPtr v), (18, fObjPtr v + 4)]"
      and allocate = "\<lambda>w. (128, w)" and construct_at = "\<lambda>p w. w" and s = state0
      and D = example_DestroyValue and x = 1 and y = 2 and h = example_handles
      and s' = state0 and other = "example_handles 2"]
    RValue_ownership [where this = 16 and wh = 64 and v = "example_handles 1"
      and parts = "\<lambda>v. [(17, fObjPtr v), (18, fObjPtr v + 4)]"
      and allocate = "\<lambda>w. (128, w)" and construct_at = "\<lambda>p w. w" and s = state0
      and D = example_DestroyValue and x = 1 and y = 1 and h = example_handles
      and s' = state0 and other = "example_handles 2"]
  by (simp add: example_handles_def example_DestroyValue_def BindValue_def SplitValue_def
      GenerateValue_def RValue_ctor_def state0_def RValue_dtor_def DestroyIfOwning_def
      RValue_move_ctor_def Release_def GetNonOwningCopy_def note_call_def)

section \<open>Cardinality fields are read-only\<close>

text \<open>
  Claim C7. For a cardinality field the write-path \<^verbatim>\<open>GenerateColumnsImpl()\<close> throws
  (\<open>Inl\<close> of the exception) whatever the field's state and columns; so connecting it to
  a page sink throws the same exception, and never yields a field, connected to a sink
  or otherwise.
\<close>

theorem RCardinalityField_write_throws:
  "GenerateColumnsImpl other RCardinalityField_class f
     = Inl (RException ''Cardinality fields must only be used for reading'')
   \<and> ConnectPageSink other RCardinalityField_class f
     = Inl (RException ''Cardinality fields must only be used for reading'')
   \<and> ConnectPageSink other RCardinalityField_class f \<noteq> Inr f'"
  by (simp add: GenerateColumnsImpl_def ConnectPageSink_def)

theorem RCardinalityField_write_throws_witness:
  "ConnectPageSink (\<lambda>f. Inr f) RCardinalityField_class
     \<lparr> fState = kUnconnected, fColumns = ([] :: nat list), fPrincipal = None \<rparr>
     = Inl (RException ''Cardinality fields must only be used for reading'')
   \<and> ConnectPageSink (\<lambda>f. Inr (f\<lparr> fColumns := [5 :: nat] \<rparr>)) Other_class
     \<lparr> fState = kUnconnected, fColumns = [], fPrincipal = None \<rparr>
     = Inr \<lparr> fState = kConnectedToSink, fColumns = [5], fPrincipal = Some 0 \<rparr>"
  using RCardinalityField_write_throws [of "\<lambda>f. Inr f"
      "\<lparr> fState = kUnconnected, fColumns = ([] :: nat list), fPrincipal = None \<rparr>"]
  by (simp add: GenerateColumnsImpl_def ConnectPageSink_def)

section \<open>The schema iterator\<close>


























section \<open>The bulk read of a cardinality field\<close>

lemma page_from_Some:
  "page_from pages i = Some v \<Longrightarrow>
     v \<noteq> [] \<and> i + length v \<le> length (concat pages)
     \<and> (\<forall>j < length v. v ! j = concat pages ! (i + j))"
proof (induction pages arbitrary: i)
  case Nil
  then show ?case by simp
next
  case (Cons pg pgs)
  show ?case
  proof (cases "i < length pg")
    case True
    then have v: "v = drop i pg" using Cons.prems by simp
    then show ?thesis using True by (auto simp: nth_append)
  next
    case False
    then have "page_from pgs (i - length pg) = Some v" using Cons.prems by simp
    from Cons.IH [OF this] show ?thesis using False by (auto simp: nth_append)
  qed
qed

lemma page_from_in_range:
  "i < length (concat pages) \<Longrightarrow> \<exists>v. page_from pages i = Some v"
proof (induction pages arbitrary: i)
  case Nil
  then show ?case by simp
next
  case (Cons pg pgs)
  then show ?case by (cases "i < length pg") auto
qed


lemma fill_batch_0: "fill_batch cardinality offsets e 0 st = st"
  by (simp add: fill_batch_def)

lemma fill_batch_Suc:
  "fill_batch cardinality offsets e (Suc n) st =
     (case fill_batch cardinality offsets e n st of (typedValues, lastOffset) \<Rightarrow>
        (typedValues[e + n := cardinality (offsets ! n - lastOffset)], offsets ! n))"
  by (simp add: fill_batch_def)

lemma fill_batch_props:
  assumes "e + n \<le> length vals"
  shows "length (fst (fill_batch cardinality offsets e n (vals, lst))) = length vals
       \<and> snd (fill_batch cardinality offsets e n (vals, lst))
           = (if n = 0 then lst else offsets ! (n - 1))
       \<and> (\<forall>i < n. fst (fill_batch cardinality offsets e n (vals, lst)) ! (e + i)
             = cardinality (offsets ! i - (if i = 0 then lst else offsets ! (i - 1))))
       \<and> (\<forall>k. k < e \<or> e + n \<le> k \<longrightarrow>
             fst (fill_batch cardinality offsets e n (vals, lst)) ! k = vals ! k)"
  using assms
proof (induction n)
  case 0
  show ?case by (simp add: fill_batch_0)
next
  case (Suc n)
  obtain tv lo where st: "fill_batch cardinality offsets e n (vals, lst) = (tv, lo)"
    by (cases "fill_batch cardinality offsets e n (vals, lst)")
  have ih: "length tv = length vals" "lo = (if n = 0 then lst else offsets ! (n - 1))"
    "\<forall>i < n. tv ! (e + i)
        = cardinality (offsets ! i - (if i = 0 then lst else offsets ! (i - 1)))"
    "\<forall>k. k < e \<or> e + n \<le> k \<longrightarrow> tv ! k = vals ! k"
    using Suc.IH Suc.prems st by simp_all
  have in_range: "e + n < length tv" using Suc.prems ih(1) by simp
  have res: "fill_batch cardinality offsets e (Suc n) (vals, lst)
               = (tv[e + n := cardinality (offsets ! n - lo)], offsets ! n)"
    by (simp add: fill_batch_Suc st)
  show ?case
    unfolding res
  proof (intro conjI allI impI)
    show "length (fst (tv[e + n := cardinality (offsets ! n - lo)], offsets ! n)) = length vals"
      using ih(1) by simp
    show "snd (tv[e + n := cardinality (offsets ! n - lo)], offsets ! n)
            = (if Suc n = 0 then lst else offsets ! (Suc n - 1))" by simp
  next
    fix i assume "i < Suc n"
    then show "fst (tv[e + n := cardinality (offsets ! n - lo)], offsets ! n) ! (e + i)
            = cardinality (offsets ! i - (if i = 0 then lst else offsets ! (i - 1)))"
      using ih(2,3) in_range by (cases "i = n") (auto simp: nth_list_update)
  next
    fix k assume "k < e \<or> e + Suc n \<le> k"
    then show "fst (tv[e + n := cardinality (offsets ! n - lo)], offsets ! n) ! k = vals ! k"
      using ih(4) by (auto simp: nth_list_update)
  qed
qed


lemma MapV_in_range:
  assumes "fIndex ci < length (cluster_offsets col (fClusterId ci))"
  shows "\<exists>v. MapV col ci = Some (v, length v) \<and> v \<noteq> []
          \<and> fIndex ci + length v \<le> length (cluster_offsets col (fClusterId ci))
          \<and> (\<forall>j < length v. v ! j = cluster_offsets col (fClusterId ci) ! (fIndex ci + j))"
proof -
  obtain v where v: "page_from (col_pages col (fClusterId ci)) (fIndex ci) = Some v"
    using page_from_in_range assms unfolding cluster_offsets_def by blast
  from page_from_Some [OF v] show ?thesis
    by (simp add: MapV_def v cluster_offsets_def)
qed

lemma loop_correct:
  fixes col firstIndex cardinality count
  defines "offs \<equiv> cluster_offsets col (fClusterId firstIndex)"
  defines "f \<equiv> fIndex firstIndex"
  assumes "e + r = count" "1 \<le> e" "f + count \<le> length offs" "count \<le> length vals"
    and "lst = offs ! (f + e - 1)"
  shows "\<exists>vals' new.
           ReadBulkImpl_loop cardinality col firstIndex r e (vals, lst) batches
             = Some (vals', batches @ new)
         \<and> length vals' = length vals
         \<and> (\<forall>k. e \<le> k \<and> k < count \<longrightarrow>
               vals' ! k = cardinality (offs ! (f + k) - offs ! (f + k - 1)))
         \<and> (\<forall>k. k < e \<or> count \<le> k \<longrightarrow> vals' ! k = vals ! k)
         \<and> batches_from col firstIndex e new
         \<and> sum_list (map snd new) = r"
  using assms(3-)
proof (induction r arbitrary: e vals lst batches rule: less_induct)
  case (less r)
  show ?case
  proof (cases "r = 0")
    case True
    then have "ReadBulkImpl_loop cardinality col firstIndex r e (vals, lst) batches
                 = Some (vals, batches @ [])"
      by (simp add: ReadBulkImpl_loop.simps)
    then show ?thesis using True less.prems by (intro exI [of _ vals] exI [of _ "[]"]) auto
  next
    case False
    let ?ci = "RClusterIndex_plus firstIndex e"
    have ci: "fClusterId ?ci = fClusterId firstIndex" "fIndex ?ci = f + e"
      by (simp_all add: RClusterIndex_plus_def f_def)
    have "fIndex ?ci < length (cluster_offsets col (fClusterId ?ci))"
      using less.prems False unfolding ci offs_def [symmetric] by simp
    from MapV_in_range [OF this]
    obtain v where v: "MapV col ?ci = Some (v, length v)" "v \<noteq> []"
      "f + e + length v \<le> length offs" "\<forall>j < length v. v ! j = offs ! (f + e + j)"
      unfolding ci offs_def [symmetric] by auto
    define n where "n = min r (length v)"
    have n: "0 < n" "n \<le> r" "n \<le> length v" using False v(2) by (simp_all add: n_def)
    obtain tv lo where st: "fill_batch cardinality v e n (vals, lst) = (tv, lo)"
      by (cases "fill_batch cardinality v e n (vals, lst)")
    have en: "e + n \<le> length vals" using less.prems n by simp
    from fill_batch_props [OF en, of cardinality v lst]
    have fb: "length tv = length vals" "lo = v ! (n - 1)"
      "\<forall>i < n. tv ! (e + i) = cardinality (v ! i - (if i = 0 then lst else v ! (i - 1)))"
      "\<forall>k. k < e \<or> e + n \<le> k \<longrightarrow> tv ! k = vals ! k"
      using n(1) by (simp_all add: st)
    have unfold: "ReadBulkImpl_loop cardinality col firstIndex r e (vals, lst) batches
            = ReadBulkImpl_loop cardinality col firstIndex (r - n) (e + n) (tv, lo)
                (batches @ [(e, n)])"
      using False n(1) by (subst ReadBulkImpl_loop.simps) (simp add: v(1) n_def [symmetric] st)
    have lo: "lo = offs ! (f + (e + n) - 1)"
      using fb(2) v(4) n by (simp add: add.assoc [symmetric])
    have p1: "r - n < r" using n False by simp
    have p2: "(e + n) + (r - n) = count" using less.prems(1) n by simp
    have p3: "1 \<le> e + n" using less.prems(2) by simp
    have p4: "count \<le> length tv" using less.prems(4) fb(1) by simp
    have "\<exists>vals' new.
           ReadBulkImpl_loop cardinality col firstIndex (r - n) (e + n) (tv, lo) (batches @ [(e, n)])
             = Some (vals', (batches @ [(e, n)]) @ new)
         \<and> length vals' = length tv
         \<and> (\<forall>k. e + n \<le> k \<and> k < count \<longrightarrow>
               vals' ! k = cardinality (offs ! (f + k) - offs ! (f + k - 1)))
         \<and> (\<forall>k. k < e + n \<or> count \<le> k \<longrightarrow> vals' ! k = tv ! k)
         \<and> batches_from col firstIndex (e + n) new
         \<and> sum_list (map snd new) = r - n"
      by (rule less.IH [OF p1 p2 p3 less.prems(3) p4 lo])
    then obtain vals' new where res:
      "ReadBulkImpl_loop cardinality col firstIndex (r - n) (e + n) (tv, lo) (batches @ [(e, n)])
             = Some (vals', (batches @ [(e, n)]) @ new)"
      "length vals' = length tv"
      "\<forall>k. e + n \<le> k \<and> k < count \<longrightarrow>
               vals' ! k = cardinality (offs ! (f + k) - offs ! (f + k - 1))"
      "\<forall>k. k < e + n \<or> count \<le> k \<longrightarrow> vals' ! k = tv ! k"
      "batches_from col firstIndex (e + n) new"
      "sum_list (map snd new) = r - n" by blast
    have mid: "vals' ! k = cardinality (offs ! (f + k) - offs ! (f + k - 1))"
      if "e \<le> k" "k < e + n" for k
    proof -
      define i where "i = k - e"
      have i: "k = e + i" "i < n" using that by (simp_all add: i_def)
      have "vals' ! k = tv ! (e + i)" using res(4) that i by simp
      also have "\<dots> = cardinality (v ! i - (if i = 0 then lst else v ! (i - 1)))"
        using fb(3) i by simp
      also have "v ! i = offs ! (f + k)" using v(4) i n by (simp add: add.assoc)
      also have "(if i = 0 then lst else v ! (i - 1)) = offs ! (f + k - 1)"
      proof (cases "i = 0")
        case True
        then show ?thesis using less.prems(5) i by simp
      next
        case False
        then have "v ! (i - 1) = offs ! (f + e + (i - 1))" using v(4) i n by simp
        then show ?thesis using False i by (simp add: add.assoc)
      qed
      finally show ?thesis .
    qed
    show ?thesis
    proof (intro exI [of _ vals'] exI [of _ "(e, n) # new"] conjI allI impI)
      show "ReadBulkImpl_loop cardinality col firstIndex r e (vals, lst) batches
              = Some (vals', batches @ (e, n) # new)"
        using unfold res(1) by simp
      show "length vals' = length vals" using res(2) fb(1) by simp
      show "batches_from col firstIndex e ((e, n) # new)"
        using res(5) n v(1) by simp
      show "sum_list (map snd ((e, n) # new)) = r" using res(6) n by simp
    next
      fix k assume k: "e \<le> k \<and> k < count"
      show "vals' ! k = cardinality (offs ! (f + k) - offs ! (f + k - 1))"
      proof (cases "k < e + n")
        case True
        then show ?thesis using mid [of k] k by simp
      next
        case False
        then have "e + n \<le> k \<and> k < count" using k by simp
        then show ?thesis using res(3) by blast
      qed
    next
      fix k assume k: "k < e \<or> count \<le> k"
      have "e + n \<le> count" using less.prems(1) n by simp
      then have a: "k < e + n \<or> count \<le> k" and b: "k < e \<or> e + n \<le> k" using k by auto
      have "vals' ! k = tv ! k" using res(4) a by blast
      also have "\<dots> = vals ! k" using fb(4) b by blast
      finally show "vals' ! k = vals ! k" .
    qed
  qed
qed


text \<open>
  Claim C6. For a bulk read of \<open>count\<close> entries, \<open>1 \<le> count < 2^64\<close>, that lie within
  one cluster of the offset column (the first index plus \<open>count\<close> is at most the number
  of entries of the cluster), into an array of at least \<open>count\<close> values, \<^verbatim>\<open>ReadBulkImpl\<close>
  returns \<^verbatim>\<open>kAllSet\<close>; it sets value 0 to the size of the collection at the first index, as
  \<^verbatim>\<open>GetCollectionInfo\<close> gives it, and value \<open>k\<close>, \<open>0 < k < count\<close>, to the offset of entry
  \<open>k\<close> minus the offset of entry \<open>k - 1\<close> (both counted from the first index), each
  converted to the cardinality type; it leaves the rest of the array alone; and it works
  through entries \<open>1 .. count - 1\<close> in consecutive batches, each within one page.
\<close>

theorem RCardinalityField_ReadBulkImpl_sizes:
  fixes bulkSpec col
  defines "firstIndex \<equiv> bs_fFirstIndex bulkSpec"
  defines "count \<equiv> bs_fCount bulkSpec"
  defines "offs \<equiv> cluster_offsets col (fClusterId (bs_fFirstIndex bulkSpec))"
  assumes count: "1 \<le> count" "count < 2 ^ 64"
    and in_cluster: "fIndex firstIndex + count \<le> length offs"
    and room: "count \<le> length typedValues"
  shows "\<exists>collectionStart collectionSize vals batches.
           GetCollectionInfo col firstIndex = Some (collectionStart, collectionSize)
         \<and> RCardinalityField_ReadBulkImpl cardinality col bulkSpec typedValues
             = Some (kAllSet, vals, batches)
         \<and> length vals = length typedValues
         \<and> vals ! 0 = cardinality collectionSize
         \<and> (\<forall>k. 0 < k \<and> k < count \<longrightarrow>
               vals ! k = cardinality (offs ! (fIndex firstIndex + k)
                                        - offs ! (fIndex firstIndex + k - 1)))
         \<and> (\<forall>k. count \<le> k \<longrightarrow> vals ! k = typedValues ! k)
         \<and> batches_from col firstIndex 1 batches
         \<and> sum_list (map snd batches) = count - 1"
proof -
  let ?f = "fIndex firstIndex"
  have f: "?f < length offs" using count in_cluster by simp
  define idxStart where "idxStart = (if ?f = 0 then 0 else offs ! (?f - 1))"
  define csize where "csize = offs ! ?f - idxStart"
  define cstart where "cstart = \<lparr> fClusterId = fClusterId firstIndex, fIndex = unat idxStart \<rparr>"
  have gci: "GetCollectionInfo col firstIndex = Some (cstart, csize)"
    using f by (simp add: GetCollectionInfo_def Let_def offs_def firstIndex_def cstart_def
        csize_def idxStart_def)
  have lastOffset: "word_of_nat (fIndex cstart) + csize = offs ! (?f + 1 - 1)"
    by (simp add: cstart_def csize_def)
  have rem: "(count + 2 ^ 64 - 1) mod 2 ^ 64 = count - 1"
  proof -
    have "count + 2 ^ 64 - 1 = (count - 1) + 1 * 2 ^ 64" using count(1) by simp
    then have "(count + 2 ^ 64 - 1) mod 2 ^ 64 = (count - 1) mod 2 ^ 64"
      by (simp only: mod_mult_self1)
    then show ?thesis using count by simp
  qed
  have e: "1 + (count - 1) = count" using count(1) by simp
  have room': "count \<le> length (typedValues[0 := cardinality csize])" using room by simp
  from loop_correct [OF e _ in_cluster [unfolded offs_def firstIndex_def] room',
      of "offs ! (?f + 1 - 1)" cardinality "[]"]
  obtain vals new where res:
    "ReadBulkImpl_loop cardinality col firstIndex (count - 1) 1
       (typedValues[0 := cardinality csize], offs ! (?f + 1 - 1)) [] = Some (vals, [] @ new)"
    "length vals = length (typedValues[0 := cardinality csize])"
    "\<forall>k. 1 \<le> k \<and> k < count \<longrightarrow>
       vals ! k = cardinality (offs ! (?f + k) - offs ! (?f + k - 1))"
    "\<forall>k. k < 1 \<or> count \<le> k \<longrightarrow> vals ! k = typedValues[0 := cardinality csize] ! k"
    "batches_from col firstIndex 1 new" "sum_list (map snd new) = count - 1"
    unfolding offs_def firstIndex_def by auto
  have impl: "RCardinalityField_ReadBulkImpl cardinality col bulkSpec typedValues
                = Some (kAllSet, vals, new)"
    unfolding RCardinalityField_ReadBulkImpl_def firstIndex_def [symmetric]
      count_def [symmetric] rem
    using res(1) gci by (simp add: lastOffset)
  have "0 < length typedValues" using room count(1) by (cases typedValues) auto
  then have "typedValues[0 := cardinality csize] ! 0 = cardinality csize" by simp
  moreover have "vals ! 0 = typedValues[0 := cardinality csize] ! 0" using res(4) by simp
  ultimately have v0: "vals ! 0 = cardinality csize" by simp
  have frame: "vals ! k = typedValues ! k" if "count \<le> k" for k
  proof -
    have "vals ! k = typedValues[0 := cardinality csize] ! k" using res(4) that by blast
    moreover have "k \<noteq> 0" using that count(1) by simp
    ultimately show ?thesis by simp
  qed
  show ?thesis
    using gci impl res(2,3,5,6) v0 frame by (intro exI [of _ cstart] exI [of _ csize]
        exI [of _ vals] exI [of _ new]) simp
qed

theorem RCardinalityField_ReadBulkImpl_witness:
  "RCardinalityField_ReadBulkImpl (ucast :: 64 word \<Rightarrow> 32 word) example_offsets
     \<lparr> bs_fFirstIndex = \<lparr> fClusterId = 0, fIndex = 0 \<rparr>, bs_fCount = 5, bs_fMaskReq = [],
       bs_fMaskAvail = [], bs_fValues = 64, bs_fAuxData = [] \<rparr> [9, 9, 9, 9, 9, 9]
   = Some (kAllSet, [3, 0, 1, 2, 4, 9], [(1, 1), (2, 1), (3, 2)])"
  using RCardinalityField_ReadBulkImpl_sizes [of
      "\<lparr> bs_fFirstIndex = \<lparr> fClusterId = 0, fIndex = 0 \<rparr>, bs_fCount = 5, bs_fMaskReq = [],
        bs_fMaskAvail = [], bs_fValues = 64, bs_fAuxData = [] \<rparr>" example_offsets
      "[9, 9, 9, 9, 9, 9]" "ucast :: 64 word \<Rightarrow> 32 word"]
  by (simp add: RCardinalityField_ReadBulkImpl_def GetCollectionInfo_def cluster_offsets_def
      example_offsets_def ReadBulkImpl_loop.simps MapV_def RClusterIndex_plus_def
      fill_batch_def kAllSet_def)

end
